theory Spec2Isabelle
  imports Complex_Main "HOL-Library.Char_ord" "HOL-Library.List_Lexorder"
begin

section \<open>Python values and exceptions\<close>

text \<open>
  A sensor reading is a Python dict from key strings to values. The values that reach the
  comparisons of \<open>check_custom_rules\<close> are Python ints and floats, or anything else a
  caller stored under the key. A number is kept by its exact value (every finite int and
  float is a rational, and Python compares ints with floats exactly); the three
  non-finite floats are separate constructors. \<open>NonNumeric\<close> stands for a value such as
  a str or None, whose ordering comparison with a number raises TypeError.
\<close>

datatype pynum = Fin real | PosInf | NegInf | NaN

datatype pyval = Number pynum | NonNumeric

datatype py_error = KeyError string | TypeError | ValueError | IndexError

type_synonym reading = "string \<rightharpoonup> pyval"

text \<open>\<open>x > c\<close> and \<open>x < c\<close> for a number \<open>x\<close> and a finite literal \<open>c\<close>; every
  comparison with NaN is False.\<close>

fun num_gt :: "pynum \<Rightarrow> real \<Rightarrow> bool" where
  "num_gt (Fin x) c = (x > c)"
| "num_gt PosInf c = True"
| "num_gt NegInf c = False"
| "num_gt NaN c = False"

fun num_lt :: "pynum \<Rightarrow> real \<Rightarrow> bool" where
  "num_lt (Fin x) c = (x < c)"
| "num_lt PosInf c = False"
| "num_lt NegInf c = True"
| "num_lt NaN c = False"

fun num_ge :: "pynum \<Rightarrow> real \<Rightarrow> bool" where
  "num_ge (Fin x) c = (x \<ge> c)"
| "num_ge PosInf c = True"
| "num_ge NegInf c = False"
| "num_ge NaN c = False"

fun py_gt :: "pyval \<Rightarrow> real \<Rightarrow> py_error + bool" where
  "py_gt (Number n) c = Inr (num_gt n c)"
| "py_gt NonNumeric c = Inl TypeError"

fun py_lt :: "pyval \<Rightarrow> real \<Rightarrow> py_error + bool" where
  "py_lt (Number n) c = Inr (num_lt n c)"
| "py_lt NonNumeric c = Inl TypeError"

text \<open>\<open>data[k]\<close> raises KeyError on a missing key; \<open>data.get(k, d)\<close> never raises.\<close>

definition getitem :: "reading \<Rightarrow> string \<Rightarrow> py_error + pyval" where
  "getitem data k = (case data k of None \<Rightarrow> Inl (KeyError k) | Some v \<Rightarrow> Inr v)"

definition get_default :: "reading \<Rightarrow> string \<Rightarrow> pyval \<Rightarrow> pyval" where
  "get_default data k d = (case data k of None \<Rightarrow> d | Some v \<Rightarrow> v)"

text \<open>\<open>data[k] > c\<close> and \<open>data[k] < c\<close>: the subscript is evaluated first, then the
  comparison.\<close>

definition item_gt :: "reading \<Rightarrow> string \<Rightarrow> real \<Rightarrow> py_error + bool" where
  "item_gt data k c = (case getitem data k of Inl e \<Rightarrow> Inl e | Inr v \<Rightarrow> py_gt v c)"

definition item_lt :: "reading \<Rightarrow> string \<Rightarrow> real \<Rightarrow> py_error + bool" where
  "item_lt data k c = (case getitem data k of Inl e \<Rightarrow> Inl e | Inr v \<Rightarrow> py_lt v c)"

text \<open>\<open>a or b\<close> on booleans: \<open>b\<close> is evaluated only when \<open>a\<close> is False, so an exception of
  \<open>b\<close> is raised only then.\<close>

definition py_or :: "py_error + bool \<Rightarrow> py_error + bool \<Rightarrow> py_error + bool" where
  "py_or a b = (case a of Inl e \<Rightarrow> Inl e | Inr x \<Rightarrow> (if x then Inr True else b))"

section \<open>The rule evaluator \<open>check_custom_rules\<close>\<close>

text \<open>
  The body of the \<open>try\<close> block is a sequence of statements over the local list
  \<open>alerts\<close>. A statement maps the list to the updated list and to the exception it raised,
  if any; the list keeps what was appended before the exception.
\<close>

type_synonym stmt = "string list \<Rightarrow> string list \<times> py_error option"

text \<open>\<open>if cond: alerts.append(label)\<close>\<close>

definition if_append :: "py_error + bool \<Rightarrow> string \<Rightarrow> stmt" where
  "if_append cond label alerts =
     (case cond of
        Inl e \<Rightarrow> (alerts, Some e)
      | Inr b \<Rightarrow> (if b then alerts @ [label] else alerts, None))"

text \<open>A block runs its statements in order and stops at the first exception.\<close>

fun block :: "stmt list \<Rightarrow> stmt" where
  "block [] alerts = (alerts, None)"
| "block (s # ss) alerts =
     (case s alerts of
        (alerts', Some e) \<Rightarrow> (alerts', Some e)
      | (alerts', None) \<Rightarrow> block ss alerts')"

definition rules_try_body :: "reading \<Rightarrow> stmt" where
  "rules_try_body data = block
     [ if_append (item_gt data ''odometer_km'' 300000)
         ''Maintenance Due / High Mileage Warning'',
       if_append (item_gt data ''engine_temp_c'' 110)
         ''Engine Overheating'',
       if_append (item_lt data ''battery_voltage_v'' 12)
         ''Battery Failure'',
       if_append (item_lt data ''oil_pressure_kpa'' 150)
         ''Low Oil Pressure Warning'',
       if_append (py_or (item_lt data ''brake_pad_wear_mm_front'' 3)
                        (py_lt (get_default data ''brake_pad_wear_mm_rear'' (Number (Fin 3))) 3))
         ''Brake Pads Critically Worn'',
       if_append (item_lt data ''suspension_health_pct'' 40)
         ''Suspension Failure Risk'',
       if_append (item_lt data ''tire_pressure_psi_fl'' 20)
         ''Low Tire Pressure'',
       if_append (item_lt data ''coolant_level_pct'' 30)
         ''Coolant Critically Low'',
       if_append (item_lt data ''brake_fluid_level_pct'' 20)
         ''Brake Fluid Critically Low'',
       if_append (item_gt data ''transmission_fluid_temp_c'' 110)
         ''Transmission Overheating'' ]"

text \<open>\<open>alerts = []\<close>, the \<open>try\<close> block, \<open>except Exception: pass\<close>, \<open>return alerts\<close>: the
  handler discards the exception and the list is returned as it is at that moment.\<close>

definition check_custom_rules :: "reading \<Rightarrow> string list" where
  "check_custom_rules data = fst (rules_try_body data [])"

section \<open>The threshold table of the specification\<close>

text \<open>
  The table of conditions and alert labels as the specification lists it, kept apart from
  the code above so that the two can be compared.
\<close>

datatype condition =
    Above string real
  | Below string real
  | BelowEither string real string real real

definition threshold_table :: "(condition \<times> string) list" where
  "threshold_table =
     [ (Above ''odometer_km'' 300000, ''Maintenance Due / High Mileage Warning''),
       (Above ''engine_temp_c'' 110, ''Engine Overheating''),
       (Below ''battery_voltage_v'' 12, ''Battery Failure''),
       (Below ''oil_pressure_kpa'' 150, ''Low Oil Pressure Warning''),
       (BelowEither ''brake_pad_wear_mm_front'' 3 ''brake_pad_wear_mm_rear'' 3 3,
          ''Brake Pads Critically Worn''),
       (Below ''suspension_health_pct'' 40, ''Suspension Failure Risk''),
       (Below ''tire_pressure_psi_fl'' 20, ''Low Tire Pressure''),
       (Below ''coolant_level_pct'' 30, ''Coolant Critically Low''),
       (Below ''brake_fluid_level_pct'' 20, ''Brake Fluid Critically Low''),
       (Above ''transmission_fluid_temp_c'' 110, ''Transmission Overheating'') ]"

definition alert_labels :: "string list" where
  "alert_labels = map snd threshold_table"

text \<open>The numeric value stored under a key, if there is one.\<close>

definition numeric_at :: "reading \<Rightarrow> string \<Rightarrow> pynum option" where
  "numeric_at data k = (case data k of Some (Number n) \<Rightarrow> Some n | _ \<Rightarrow> None)"

text \<open>A condition of the table holds on a reading. \<open>BelowEither f c r d c'\<close> is
  ``\<open>f < c\<close> or \<open>r < c'\<close>, \<open>r\<close> defaulting to \<open>d\<close> when absent''.\<close>

fun holds :: "reading \<Rightarrow> condition \<Rightarrow> bool" where
  "holds data (Above k c) = (case numeric_at data k of Some n \<Rightarrow> num_gt n c | None \<Rightarrow> False)"
| "holds data (Below k c) = (case numeric_at data k of Some n \<Rightarrow> num_lt n c | None \<Rightarrow> False)"
| "holds data (BelowEither f c r d c') =
     (case numeric_at data f of
        None \<Rightarrow> False
      | Some n \<Rightarrow> num_lt n c \<or>
          (case data r of None \<Rightarrow> d < c' | Some (Number m) \<Rightarrow> num_lt m c' | Some NonNumeric \<Rightarrow> False))"

text \<open>Evaluating a condition of the table raises: a key it reads is missing, or a value
  it compares is not a number. The rear brake pad is read only when the front one is not
  below its threshold, and its absence never raises.\<close>

fun raises :: "reading \<Rightarrow> condition \<Rightarrow> bool" where
  "raises data (Above k c) = (numeric_at data k = None)"
| "raises data (Below k c) = (numeric_at data k = None)"
| "raises data (BelowEither f c r d c') =
     (case numeric_at data f of
        None \<Rightarrow> True
      | Some n \<Rightarrow> \<not> num_lt n c \<and> data r = Some NonNumeric)"

text \<open>The keys a reading must hold, and a reading that holds a number under each of them
  (the rear brake pad may be absent, but not a non-number).\<close>

definition required_keys :: "string list" where
  "required_keys =
     [ ''odometer_km'', ''engine_temp_c'', ''battery_voltage_v'', ''oil_pressure_kpa'',
       ''brake_pad_wear_mm_front'', ''suspension_health_pct'', ''tire_pressure_psi_fl'',
       ''coolant_level_pct'', ''brake_fluid_level_pct'', ''transmission_fluid_temp_c'' ]"

definition numeric_reading :: "reading \<Rightarrow> bool" where
  "numeric_reading data =
     (list_all (\<lambda>k. numeric_at data k \<noteq> None) required_keys \<and>
      data ''brake_pad_wear_mm_rear'' \<noteq> Some NonNumeric)"

text \<open>The readings quoted by the specification.\<close>

definition mk_reading :: "(string \<times> real) list \<Rightarrow> reading" where
  "mk_reading kvs = map_of (map (\<lambda>(k, x). (k, Number (Fin x))) kvs)"

definition all_thresholds_reading :: reading where
  "all_thresholds_reading = mk_reading
     [ (''odometer_km'', 350000), (''engine_temp_c'', 115), (''battery_voltage_v'', 11.5),
       (''oil_pressure_kpa'', 100), (''brake_pad_wear_mm_front'', 2),
       (''suspension_health_pct'', 30), (''tire_pressure_psi_fl'', 15),
       (''coolant_level_pct'', 20), (''brake_fluid_level_pct'', 10),
       (''transmission_fluid_temp_c'', 120) ]"

definition no_threshold_reading :: reading where
  "no_threshold_reading = mk_reading
     [ (''odometer_km'', 50000), (''engine_temp_c'', 90), (''battery_voltage_v'', 13.5),
       (''oil_pressure_kpa'', 300), (''brake_pad_wear_mm_front'', 8),
       (''brake_pad_wear_mm_rear'', 8), (''suspension_health_pct'', 90),
       (''tire_pressure_psi_fl'', 32), (''coolant_level_pct'', 95),
       (''brake_fluid_level_pct'', 95), (''transmission_fluid_temp_c'', 85) ]"

text \<open>Every value sits exactly on its threshold.\<close>

definition boundary_reading :: reading where
  "boundary_reading = mk_reading
     [ (''odometer_km'', 300000), (''engine_temp_c'', 110), (''battery_voltage_v'', 12),
       (''oil_pressure_kpa'', 150), (''brake_pad_wear_mm_front'', 3),
       (''brake_pad_wear_mm_rear'', 3), (''suspension_health_pct'', 40),
       (''tire_pressure_psi_fl'', 20), (''coolant_level_pct'', 30),
       (''brake_fluid_level_pct'', 20), (''transmission_fluid_temp_c'', 110) ]"

section \<open>The fusion of rule alerts and model prediction\<close>

text \<open>
  The fusion block of the Detailed Analysis page:
  \<^verbatim>\<open>all_alerts = set(rule_alerts)\<close>,
  \<^verbatim>\<open>if predicted_failure not in ["None", "Normal"] and confidence >= 50:\<close>
  \<^verbatim>\<open>all_alerts.add(predicted_failure)\<close>.
  The confidence is the int 0 or a float, so it is a \<open>pynum\<close>.
\<close>

definition all_alerts :: "string list \<Rightarrow> string \<Rightarrow> pynum \<Rightarrow> string set" where
  "all_alerts rule_alerts predicted_failure confidence =
     (let alerts = set rule_alerts
      in if predicted_failure \<notin> set [''None'', ''Normal''] \<and> num_ge confidence 50
         then insert predicted_failure alerts
         else alerts)"

section \<open>Loading the artifacts and \<open>predict_failure\<close>\<close>

text \<open>
  The four pickle files, each absent (\<open>None\<close>) or holding an object. The classifier, the
  scaler and the encoder are objects of libraries outside the repository and stay
  abstract; the fourth file holds the list of training column names.
\<close>

record ('m, 's, 'e) artifact_files =
  model_pkl :: "'m option"
  scaler_pkl :: "'s option"
  encoder_pkl :: "'e option"
  training_columns_pkl :: "string list option"

text \<open>The four module-level globals; \<open>None\<close> is Python's None.\<close>

record ('m, 's, 'e) artifacts =
  model :: "'m option"
  scaler :: "'s option"
  encoder :: "'e option"
  training_columns :: "string list option"

definition no_artifacts :: "('m, 's, 'e) artifacts" where
  "no_artifacts = \<lparr> model = None, scaler = None, encoder = None, training_columns = None \<rparr>"

text \<open>\<open>load_model_assets\<close> opens the four files in turn; a FileNotFoundError at any of them
  is caught and four Nones are returned.\<close>

definition load_model_assets :: "('m, 's, 'e) artifact_files \<Rightarrow> ('m, 's, 'e) artifacts" where
  "load_model_assets files =
     (case model_pkl files of None \<Rightarrow> no_artifacts | Some m \<Rightarrow>
     (case scaler_pkl files of None \<Rightarrow> no_artifacts | Some s \<Rightarrow>
     (case encoder_pkl files of None \<Rightarrow> no_artifacts | Some e \<Rightarrow>
     (case training_columns_pkl files of None \<Rightarrow> no_artifacts | Some cols \<Rightarrow>
        \<lparr> model = Some m, scaler = Some s, encoder = Some e,
          training_columns = Some cols \<rparr>))))"

text \<open>
  The arithmetic of \<open>predict_failure\<close> is pandas arithmetic on the columns of a one-row
  frame. What it returns, and whether it raises, is the library's matter and depends on
  what the cells are: a None cell gives NaN and no exception, two strs are concatenated,
  int64 cells wrap around, floats round, a str and a float raise TypeError. So the cells
  of the frame and the operations on them are parameters: the two operators, which may
  raise, and the cells that a Python float and a Python int become. The literal
  \<^verbatim>\<open>1e-6\<close> is the double nearest to one millionth.
\<close>

record 'c series_ops =
  series_add :: "'c \<Rightarrow> 'c \<Rightarrow> py_error + 'c"
  series_div :: "'c \<Rightarrow> 'c \<Rightarrow> py_error + 'c"
  float_cell :: "pynum \<Rightarrow> 'c"
  int_cell :: "int \<Rightarrow> 'c"

definition lit_1e_6 :: pynum where
  "lit_1e_6 = Fin (4722366482869645 / 4722366482869645213696)"

definition bind_err :: "py_error + 'a \<Rightarrow> ('a \<Rightarrow> py_error + 'b) \<Rightarrow> py_error + 'b" where
  "bind_err r f = (case r of Inl e \<Rightarrow> Inl e | Inr x \<Rightarrow> f x)"

text \<open>\<open>try: x = e\<close>, \<open>except Exception: x = d\<close>\<close>

definition try_except :: "py_error + 'a \<Rightarrow> 'a \<Rightarrow> 'a" where
  "try_except r d = (case r of Inl e \<Rightarrow> d | Inr x \<Rightarrow> x)"

text \<open>\<open>pd.DataFrame([input_data])\<close> has one row and one column per key of the dict;
  \<open>input_df[k]\<close> raises KeyError on a missing column.\<close>

definition column :: "(string \<rightharpoonup> 'c) \<Rightarrow> string \<Rightarrow> py_error + 'c" where
  "column input_df k = (case input_df k of None \<Rightarrow> Inl (KeyError k) | Some v \<Rightarrow> Inr v)"

definition temp_pressure_ratio :: "'c series_ops \<Rightarrow> (string \<rightharpoonup> 'c) \<Rightarrow> py_error + 'c" where
  "temp_pressure_ratio ops input_df =
     bind_err (column input_df ''engine_temp_c'') (\<lambda>t.
     bind_err (column input_df ''oil_pressure_kpa'') (\<lambda>p.
     bind_err (series_add ops p (float_cell ops lit_1e_6)) (\<lambda>d.
     series_div ops t d)))"

definition total_brake_wear :: "'c series_ops \<Rightarrow> (string \<rightharpoonup> 'c) \<Rightarrow> py_error + 'c" where
  "total_brake_wear ops input_df =
     bind_err (column input_df ''brake_pad_wear_mm_front'') (\<lambda>f.
     bind_err (column input_df ''brake_pad_wear_mm_rear'') (\<lambda>r.
     series_add ops f r))"

text \<open>The two \<open>try\<close> blocks: each assigns the derived column, or 0.0 when its
  computation has raised.\<close>

definition engineer_features :: "'c series_ops \<Rightarrow> (string \<rightharpoonup> 'c) \<Rightarrow> (string \<rightharpoonup> 'c)" where
  "engineer_features ops input_data =
     (let input_df = input_data;
          input_df = input_df(''temp_pressure_ratio'' \<mapsto>
                        try_except (temp_pressure_ratio ops input_df) (float_cell ops (Fin 0)));
          input_df = input_df(''total_brake_wear'' \<mapsto>
                        try_except (total_brake_wear ops input_df) (float_cell ops (Fin 0)))
      in input_df)"

text \<open>\<open>input_df.reindex(columns=training_columns, fill_value=0)\<close>: one cell per training
  column, in that order; a column the frame lacks is filled with the int 0.\<close>

definition reindex :: "'c series_ops \<Rightarrow> string list \<Rightarrow> (string \<rightharpoonup> 'c) \<Rightarrow> (string \<times> 'c) list" where
  "reindex ops columns input_df =
     map (\<lambda>c. (c, case input_df c of None \<Rightarrow> int_cell ops 0 | Some v \<Rightarrow> v)) columns"

definition feature_vector ::
  "'c series_ops \<Rightarrow> string list \<Rightarrow> (string \<rightharpoonup> 'c) \<Rightarrow> (string \<times> 'c) list" where
  "feature_vector ops columns input_data =
     reindex ops columns (engineer_features ops input_data)"

text \<open>
  \<open>predict_failure\<close>. The guard \<open>not all([model, scaler, encoder, training_columns])\<close>
  tests truthiness: None is falsy, and so is an empty column list. The scaling and the
  prediction (\<open>scaler.transform\<close>, \<open>model.predict\<close>, \<open>model.predict_proba\<close>,
  \<open>encoder.inverse_transform\<close>, the maximum probability times 100) are library calls and
  are the parameter \<open>infer\<close>, which may raise.
\<close>

type_synonym ('m, 's, 'e, 'c, 'p) inference =
  "'m \<Rightarrow> 's \<Rightarrow> 'e \<Rightarrow> (string \<times> 'c) list \<Rightarrow> py_error + (string \<times> pynum \<times> 'p)"

definition model_not_loaded :: "string \<times> pynum \<times> 'p option" where
  "model_not_loaded = (''Model not loaded'', Fin 0, None)"

definition predict_failure ::
  "'c series_ops \<Rightarrow> ('m, 's, 'e, 'c, 'p) inference \<Rightarrow> ('m, 's, 'e) artifacts
     \<Rightarrow> (string \<rightharpoonup> 'c) \<Rightarrow> py_error + (string \<times> pynum \<times> 'p option)" where
  "predict_failure ops infer arts input_data =
     (case model arts of None \<Rightarrow> Inr model_not_loaded | Some m \<Rightarrow>
     (case scaler arts of None \<Rightarrow> Inr model_not_loaded | Some s \<Rightarrow>
     (case encoder arts of None \<Rightarrow> Inr model_not_loaded | Some e \<Rightarrow>
     (case training_columns arts of None \<Rightarrow> Inr model_not_loaded | Some cols \<Rightarrow>
        if cols = [] then Inr model_not_loaded
        else bind_err (infer m s e (feature_vector ops cols input_data))
               (\<lambda>(predicted_failure, confidence, prediction_proba).
                  Inr (predicted_failure, confidence, Some prediction_proba))))))"

text \<open>The diagnosis of the Detailed Analysis page: the rules, the prediction, the fusion.
  An exception of \<open>predict_failure\<close> is not caught there. The page hands the same dict to
  both functions, so here the values of the reading are the cells of the frame.\<close>

definition diagnose ::
  "pyval series_ops \<Rightarrow> ('m, 's, 'e, pyval, 'p) inference \<Rightarrow> ('m, 's, 'e) artifacts \<Rightarrow> reading
     \<Rightarrow> py_error + string set" where
  "diagnose ops infer arts data =
     (let rule_alerts = check_custom_rules data
      in bind_err (predict_failure ops infer arts data)
           (\<lambda>(predicted_failure, confidence, prediction_proba).
              Inr (all_alerts rule_alerts predicted_failure confidence)))"

section \<open>The training script\<close>

text \<open>
  \<open>LabelEncoder\<close>: fitting keeps the sorted distinct labels (\<open>classes_\<close>); a label is
  encoded as its position there, and a label never seen raises ValueError.
\<close>

definition le_fit :: "string list \<Rightarrow> string list" where
  "le_fit y_text = sort (remdups y_text)"

fun index_of :: "'a list \<Rightarrow> 'a \<Rightarrow> nat option" where
  "index_of [] y = None"
| "index_of (x # xs) y = (if x = y then Some 0 else map_option Suc (index_of xs y))"

fun le_transform :: "string list \<Rightarrow> string list \<Rightarrow> py_error + nat list" where
  "le_transform classes [] = Inr []"
| "le_transform classes (y # ys) =
     (case index_of classes y of
        None \<Rightarrow> Inl ValueError
      | Some i \<Rightarrow> bind_err (le_transform classes ys) (\<lambda>is. Inr (i # is)))"

type_synonym draws = "nat \<Rightarrow> nat"

text \<open>\<open>xs[0]\<close>\<close>

definition first_item :: "'a list \<Rightarrow> py_error + 'a" where
  "first_item xs = (case xs of [] \<Rightarrow> Inl IndexError | x # _ \<Rightarrow> Inr x)"

text \<open>
  \<open>resample(rows, replace=True, n_samples=k, random_state=...)\<close>, drawing from the
  generator \<open>rng\<close>, a stream of numbers: the function checks its parameters first and
  rejects \<open>k < 1\<close> with an InvalidParameterError, which is a ValueError; then \<open>k\<close>
  indices are drawn independently from \<open>0 .. len(rows) - 1\<close>, which raises ValueError
  when there are no rows, and the rows at those indices are returned.
\<close>

definition resample :: "draws \<Rightarrow> 'r list \<Rightarrow> nat \<Rightarrow> py_error + 'r list" where
  "resample rng rows n_samples =
     (if n_samples < 1 then Inl ValueError
      else if rows = [] then Inl ValueError
      else Inr (map (\<lambda>i. rows ! (rng i mod length rows)) [0..<n_samples]))"

text \<open>
  A row of the csv file: the \<open>failure_type\<close> cell, absent when the cell is empty, and the
  other cells, absent when any of them is empty. \<open>fillna\<close> puts \<open>''None''\<close> into an empty
  \<open>failure_type\<close>, then \<open>dropna\<close> removes the rows that still lack a cell.
\<close>

record 'x csv_row =
  failure_type :: "string option"
  other_cells :: "'x option"

definition fillna :: "string option \<Rightarrow> string" where
  "fillna cell = (case cell of None \<Rightarrow> ''None'' | Some l \<Rightarrow> l)"

definition clean :: "'x csv_row list \<Rightarrow> ('x \<times> string) list" where
  "clean df =
     List.map_filter (\<lambda>r. map_option (\<lambda>x. (x, fillna (failure_type r))) (other_cells r)) df"

text \<open>
  Steps 2 and 3 on the cleaned rows (features of a row, label text): encode the labels,
  split the rows into failures and normals by the code of \<open>''None''\<close>, upsample the
  normals to half the number of failures, and concatenate.
\<close>

record 'x balanced =
  classes :: "string list"
  df_failures :: "('x \<times> nat) list"
  df_normal :: "('x \<times> nat) list"
  df_normal_upsampled :: "('x \<times> nat) list"
  df_balanced :: "('x \<times> nat) list"

definition balance :: "draws \<Rightarrow> ('x \<times> string) list \<Rightarrow> py_error + 'x balanced" where
  "balance rng rows =
     (let X = map fst rows;
          y_text = map snd rows;
          le = le_fit y_text
      in bind_err (le_transform le y_text) (\<lambda>y_encoded.
         bind_err (le_transform le [''None'']) (\<lambda>ids.
         bind_err (first_item ids) (\<lambda>normal_class_id.
           let df_to_balance = zip X y_encoded;
               failures = filter (\<lambda>r. snd r \<noteq> normal_class_id) df_to_balance;
               normal = filter (\<lambda>r. snd r = normal_class_id) df_to_balance
           in bind_err (resample rng normal (length failures div 2)) (\<lambda>upsampled.
                Inr \<lparr> classes = le, df_failures = failures, df_normal = normal,
                      df_normal_upsampled = upsampled,
                      df_balanced = failures @ upsampled \<rparr>)))))"

text \<open>
  The rest of the script calls libraries, and a run of the script meets them as they
  behave in that run: the feature engineering on the columns (\<open>engineer\<close>, float
  arithmetic), \<open>StandardScaler.fit_transform\<close>, the stratified \<open>train_test_split\<close>
  and \<open>XGBClassifier.fit\<close>, the last two drawing from a generator and able to raise; the
  generator that numpy makes from a seed; and the global generator of the process, which
  is seeded afresh in every run.
\<close>

record ('x, 'z, 'md) libraries =
  engineer :: "'x \<Rightarrow> 'x"
  fit_transform :: "'x list \<Rightarrow> 'z list"
  train_test_split :: "draws \<Rightarrow> ('z \<times> nat) list \<Rightarrow> py_error + ('z \<times> nat) list \<times> ('z \<times> nat) list"
  xgb_fit :: "draws \<Rightarrow> nat \<Rightarrow> ('z \<times> nat) list \<Rightarrow> py_error + 'md"
  seeded_generator :: "nat \<Rightarrow> draws"
  global_generator :: "draws"

text \<open>\<open>random_state=s\<close> makes a library call draw from the generator seeded with \<open>s\<close>;
  without the argument (\<open>None\<close>) the call draws from the global generator.\<close>

definition check_random_state :: "('x, 'z, 'md) libraries \<Rightarrow> nat option \<Rightarrow> draws" where
  "check_random_state lib random_state =
     (case random_state of None \<Rightarrow> global_generator lib | Some seed \<Rightarrow> seeded_generator lib seed)"

record ('x, 'z) prepared =
  label_classes :: "string list"
  balanced_rows :: "('x \<times> nat) list"
  upsampled_rows :: "('x \<times> nat) list"
  train_rows :: "('z \<times> nat) list"
  test_rows :: "('z \<times> nat) list"

text \<open>Steps 1 to 5 of the script, up to the split, and the whole script with the
  training, each with the \<open>random_state\<close> arguments of its calls as parameters.\<close>

definition prepare_with ::
  "nat option \<Rightarrow> nat option \<Rightarrow> ('x, 'z, 'md) libraries \<Rightarrow> 'x csv_row list
     \<Rightarrow> py_error + ('x, 'z) prepared" where
  "prepare_with resample_state split_state lib df =
     (let rows = map (\<lambda>(x, l). (engineer lib x, l)) (clean df)
      in bind_err (balance (check_random_state lib resample_state) rows) (\<lambda>b.
           let y_final = map snd (df_balanced b);
               X_scaled = fit_transform lib (map fst (df_balanced b))
           in bind_err (train_test_split lib (check_random_state lib split_state)
                          (zip X_scaled y_final)) (\<lambda>(tr, te).
                Inr \<lparr> label_classes = classes b, balanced_rows = df_balanced b,
                      upsampled_rows = df_normal_upsampled b,
                      train_rows = tr, test_rows = te \<rparr>)))"

definition train_with ::
  "nat option \<Rightarrow> nat option \<Rightarrow> nat option \<Rightarrow> ('x, 'z, 'md) libraries \<Rightarrow> 'x csv_row list
     \<Rightarrow> py_error + ('x, 'z) prepared \<times> 'md" where
  "train_with resample_state split_state xgb_state lib df =
     bind_err (prepare_with resample_state split_state lib df) (\<lambda>p.
     bind_err (xgb_fit lib (check_random_state lib xgb_state)
                 (length (label_classes p)) (train_rows p)) (\<lambda>final_model.
       Inr (p, final_model)))"

text \<open>The script passes \<open>random_state=42\<close> in all three calls.\<close>

definition prepare :: "('x, 'z, 'md) libraries \<Rightarrow> 'x csv_row list \<Rightarrow> py_error + ('x, 'z) prepared" where
  "prepare lib df = prepare_with (Some 42) (Some 42) lib df"

definition train ::
  "('x, 'z, 'md) libraries \<Rightarrow> 'x csv_row list \<Rightarrow> py_error + ('x, 'z) prepared \<times> 'md" where
  "train lib df = train_with (Some 42) (Some 42) (Some 42) lib df"

section \<open>Vocabulary of the statements\<close>

text \<open>
  The rows of a table that are evaluated on a reading are those before the first row
  whose evaluation raises; the triggered labels of some rows are the labels of the rows
  whose condition holds, in table order.
\<close>

definition evaluated :: "reading \<Rightarrow> (condition \<times> string) list \<Rightarrow> (condition \<times> string) list" where
  "evaluated data table = takeWhile (\<lambda>r. \<not> raises data (fst r)) table"

definition triggered :: "reading \<Rightarrow> (condition \<times> string) list \<Rightarrow> string list" where
  "triggered data table = map snd (filter (\<lambda>r. holds data (fst r)) table)"

text \<open>The required key a condition reads with a subscript.\<close>

fun reads :: "condition \<Rightarrow> string" where
  "reads (Above k c) = k"
| "reads (Below k c) = k"
| "reads (BelowEither f c r d c') = f"

text \<open>A statement of the code behaves as a row of the table says: it raises and leaves
  the list alone when the row raises, and appends the row's label when the row holds.\<close>

definition implements :: "reading \<Rightarrow> stmt \<Rightarrow> condition \<times> string \<Rightarrow> bool" where
  "implements data s r =
     (\<forall>a. if raises data (fst r) then (\<exists>e. s a = (a, Some e))
          else s a = (if holds data (fst r) then a @ [snd r] else a, None))"

text \<open>\<open>encoder.inverse_transform\<close> on the label of an encoded row.\<close>

definition decode_row :: "string list \<Rightarrow> 'x \<times> nat \<Rightarrow> 'x \<times> string" where
  "decode_row cs r = (fst r, cs ! snd r)"

section \<open>Example inputs\<close>

text \<open>A reading without \<open>odometer_km\<close> whose engine is too hot, and a reading past the
  mileage threshold without \<open>engine_temp_c\<close> whose battery is low.\<close>

definition missing_odometer_reading :: reading where
  "missing_odometer_reading = mk_reading
     [ (''engine_temp_c'', 115), (''battery_voltage_v'', 13.5),
       (''oil_pressure_kpa'', 300), (''brake_pad_wear_mm_front'', 8),
       (''brake_pad_wear_mm_rear'', 8), (''suspension_health_pct'', 90),
       (''tire_pressure_psi_fl'', 32), (''coolant_level_pct'', 95),
       (''brake_fluid_level_pct'', 95), (''transmission_fluid_temp_c'', 85) ]"

definition missing_engine_temp_reading :: reading where
  "missing_engine_temp_reading = mk_reading
     [ (''odometer_km'', 350000), (''battery_voltage_v'', 11.5),
       (''oil_pressure_kpa'', 300), (''brake_pad_wear_mm_front'', 8),
       (''brake_pad_wear_mm_rear'', 8), (''suspension_health_pct'', 90),
       (''tire_pressure_psi_fl'', 32), (''coolant_level_pct'', 95),
       (''brake_fluid_level_pct'', 95), (''transmission_fluid_temp_c'', 85) ]"

text \<open>Stand-ins for the operations on the cells, for the examples; the cells are the
  values of a reading. The first is exact arithmetic on finite numbers, NaN on the others,
  and raises TypeError on a non-number; the second differs in masking a non-number as
  pandas masks None: the result is NaN and nothing is raised. Neither is pandas.\<close>

fun exact_add :: "pynum \<Rightarrow> pynum \<Rightarrow> pynum" where
  "exact_add (Fin x) (Fin y) = Fin (x + y)"
| "exact_add _ _ = NaN"

fun exact_div :: "pynum \<Rightarrow> pynum \<Rightarrow> pynum" where
  "exact_div (Fin x) (Fin y) = (if y = 0 then NaN else Fin (x / y))"
| "exact_div _ _ = NaN"

fun on_numbers :: "(pynum \<Rightarrow> pynum \<Rightarrow> pynum) \<Rightarrow> py_error + pyval \<Rightarrow> pyval \<Rightarrow> pyval
                     \<Rightarrow> py_error + pyval" where
  "on_numbers f other (Number a) (Number b) = Inr (Number (f a b))"
| "on_numbers f other _ _ = other"

definition exact_ops :: "pyval series_ops" where
  "exact_ops =
     \<lparr> series_add = on_numbers exact_add (Inl TypeError),
       series_div = on_numbers exact_div (Inl TypeError),
       float_cell = Number,
       int_cell = (\<lambda>i. Number (Fin (of_int i))) \<rparr>"

definition masking_ops :: "pyval series_ops" where
  "masking_ops =
     \<lparr> series_add = on_numbers exact_add (Inr (Number NaN)),
       series_div = on_numbers exact_div (Inr (Number NaN)),
       float_cell = Number,
       int_cell = (\<lambda>i. Number (Fin (of_int i))) \<rparr>"

text \<open>A reading without the rear brake pad, the same reading with a non-number for the
  oil pressure, and training columns that name a column the reading lacks and leave out
  most of its keys.\<close>

definition no_rear_reading :: reading where
  "no_rear_reading = mk_reading
     [ (''odometer_km'', 50000), (''engine_temp_c'', 90), (''oil_pressure_kpa'', 300),
       (''brake_pad_wear_mm_front'', 8) ]"

definition no_oil_value_reading :: reading where
  "no_oil_value_reading = no_rear_reading(''oil_pressure_kpa'' \<mapsto> NonNumeric)"

definition example_columns :: "string list" where
  "example_columns =
     [ ''total_brake_wear'', ''engine_temp_c'', ''cabin_humidity_pct'', ''temp_pressure_ratio'' ]"

text \<open>Artifact files of which \<open>scaler.pkl\<close> is missing, artifacts whose encoder is None,
  and an inference that always predicts an overheating engine at 90 percent.\<close>

definition files_without_scaler :: "(unit, unit, unit) artifact_files" where
  "files_without_scaler =
     \<lparr> model_pkl = Some (), scaler_pkl = None, encoder_pkl = Some (),
       training_columns_pkl = Some example_columns \<rparr>"

definition artifacts_without_encoder :: "(unit, unit, unit) artifacts" where
  "artifacts_without_encoder =
     \<lparr> model = Some (), scaler = Some (), encoder = None,
       training_columns = Some example_columns \<rparr>"

definition always_overheating :: "(unit, unit, unit, pyval, unit) inference" where
  "always_overheating m s e features = Inr (''Engine Overheating'', Fin 90, ())"

text \<open>Six cleaned rows, four failures and two normals; two cleaned rows, one failure and
  one normal; and the generator that hands out 0, 1, 2, ...\<close>

definition example_rows :: "(nat \<times> string) list" where
  "example_rows =
     [ (1, ''Brake Failure''), (2, ''None''), (3, ''Engine Overheating''), (4, ''None''),
       (5, ''Brake Failure''), (6, ''Battery Failure'') ]"

definition one_failure_rows :: "(nat \<times> string) list" where
  "one_failure_rows = [ (1, ''Brake Failure''), (2, ''None'') ]"

definition counting_draws :: draws where
  "counting_draws i = i"

text \<open>A csv file of seven rows, one of them with an empty cell and two with an empty
  \<open>failure_type\<close>, and two runs of stand-ins for the libraries. The split puts as many
  rows into the test part as its first draw says, modulo 5; the classifier keeps its
  first draw; the generator made from a seed hands out the multiples of the seed, plus
  one. The two runs differ in their global generators only.\<close>

definition example_csv :: "nat csv_row list" where
  "example_csv =
     [ \<lparr> failure_type = Some ''Brake Failure'', other_cells = Some 1 \<rparr>,
       \<lparr> failure_type = None, other_cells = Some 2 \<rparr>,
       \<lparr> failure_type = Some ''Engine Overheating'', other_cells = None \<rparr>,
       \<lparr> failure_type = Some ''Engine Overheating'', other_cells = Some 3 \<rparr>,
       \<lparr> failure_type = None, other_cells = Some 4 \<rparr>,
       \<lparr> failure_type = Some ''Brake Failure'', other_cells = Some 5 \<rparr>,
       \<lparr> failure_type = Some ''Battery Failure'', other_cells = Some 6 \<rparr> ]"

definition example_run :: "(nat, nat, nat) libraries" where
  "example_run =
     \<lparr> engineer = (\<lambda>x. x),
       fit_transform = (\<lambda>xs. xs),
       train_test_split = (\<lambda>rng rows. Inr (drop (rng 0 mod 5) rows, take (rng 0 mod 5) rows)),
       xgb_fit = (\<lambda>rng num_class rows. Inr (rng 0)),
       seeded_generator = (\<lambda>seed i. seed * (i + 1) + 1),
       global_generator = (\<lambda>i. 0) \<rparr>"

definition other_run :: "(nat, nat, nat) libraries" where
  "other_run = example_run \<lparr> global_generator := (\<lambda>i. 1) \<rparr>"

section \<open>The code against the threshold table\<close>

lemma implements_above: "implements data (if_append (item_gt data k c) l) (Above k c, l)"
  by (auto simp: implements_def if_append_def item_gt_def getitem_def numeric_at_def
           split: option.splits pyval.splits)

lemma implements_below: "implements data (if_append (item_lt data k c) l) (Below k c, l)"
  by (auto simp: implements_def if_append_def item_lt_def getitem_def numeric_at_def
           split: option.splits pyval.splits)

lemma implements_below_either:
  "implements data
     (if_append (py_or (item_lt data f c) (py_lt (get_default data r (Number (Fin d))) c')) l)
     (BelowEither f c r d c', l)"
  by (auto simp: implements_def if_append_def item_lt_def getitem_def numeric_at_def py_or_def
                 get_default_def
           split: option.splits pyval.splits)

text \<open>A block whose statements implement the rows of a table, one by one, leaves the
  triggered labels of the evaluated rows behind, whether it ends or raises.\<close>

lemma block_implements:
  "list_all2 (implements data) stmts table \<Longrightarrow>
     fst (block stmts a) = a @ triggered data (evaluated data table)"
proof (induction stmts table arbitrary: a rule: list_all2_induct)
  case Nil
  then show ?case by (simp add: triggered_def evaluated_def)
next
  case (Cons s stmts r table)
  show ?case
  proof (cases "raises data (fst r)")
    case True
    with Cons.hyps(1) obtain e where "s a = (a, Some e)"
      unfolding implements_def by metis
    with True show ?thesis by (simp add: triggered_def evaluated_def)
  next
    case False
    with Cons.hyps(1) have "s a = (if holds data (fst r) then a @ [snd r] else a, None)"
      unfolding implements_def by metis
    with False Cons.IH show ?thesis by (simp add: triggered_def evaluated_def)
  qed
qed

lemma check_custom_rules_table:
  "check_custom_rules data = triggered data (evaluated data threshold_table)"
proof -
  have "fst (rules_try_body data []) = [] @ triggered data (evaluated data threshold_table)"
    unfolding rules_try_body_def threshold_table_def
    by (rule block_implements)
       (simp add: implements_above implements_below implements_below_either)
  then show ?thesis by (simp add: check_custom_rules_def)
qed

lemma distinct_table_labels: "distinct (map snd threshold_table)"
  by (simp add: threshold_table_def)

lemma table_labels:
  "map snd threshold_table =
     [ ''Maintenance Due / High Mileage Warning'', ''Engine Overheating'', ''Battery Failure'',
       ''Low Oil Pressure Warning'', ''Brake Pads Critically Worn'', ''Suspension Failure Risk'',
       ''Low Tire Pressure'', ''Coolant Critically Low'', ''Brake Fluid Critically Low'',
       ''Transmission Overheating'' ]"
  by (simp add: threshold_table_def)

lemma table_keys:
  "map (\<lambda>r. reads (fst r)) threshold_table = required_keys"
  by (simp add: threshold_table_def required_keys_def)

lemma evaluated_prefix: "\<exists>rest. table = evaluated data table @ rest"
  unfolding evaluated_def by (metis takeWhile_dropWhile_id)

lemma set_evaluated: "set (evaluated data table) \<subseteq> set table"
  unfolding evaluated_def by (auto dest: set_takeWhileD)

lemma evaluated_no_raise: "r \<in> set (evaluated data table) \<Longrightarrow> \<not> raises data (fst r)"
  unfolding evaluated_def by (auto dest: set_takeWhileD)

lemma set_triggered:
  "set (triggered data table) = {l. \<exists>c. (c, l) \<in> set table \<and> holds data c}"
  by (force simp: triggered_def)

lemma distinct_check_custom_rules: "distinct (check_custom_rules data)"
proof -
  obtain rest where "threshold_table = evaluated data threshold_table @ rest"
    using evaluated_prefix by blast
  then have "distinct (map snd (evaluated data threshold_table))"
    using distinct_table_labels by (metis distinct_append map_append)
  then show ?thesis
    by (simp add: check_custom_rules_table triggered_def distinct_map_filter)
qed

lemma check_custom_rules_labels: "set (check_custom_rules data) \<subseteq> set alert_labels"
  using set_evaluated[of data threshold_table]
  by (auto simp: check_custom_rules_table triggered_def alert_labels_def)

lemma distinct_snd_unique:
  "distinct (map snd xs) \<Longrightarrow> (a, l) \<in> set xs \<Longrightarrow> (b, l) \<in> set xs \<Longrightarrow> a = b"
  by (induction xs) (force simp: image_iff)+

text \<open>An alert in the result comes from its own row of the table: the row was evaluated
  and its condition holds.\<close>

lemma alert_from_own_row:
  assumes "(c, l) \<in> set threshold_table" and "l \<in> set (check_custom_rules data)"
  shows "(c, l) \<in> set (evaluated data threshold_table) \<and> holds data c"
proof -
  from assms(2) obtain c' where c': "(c', l) \<in> set (evaluated data threshold_table)"
      "holds data c'"
    by (auto simp: check_custom_rules_table triggered_def)
  then have "(c', l) \<in> set threshold_table"
    using set_evaluated by blast
  then have "c' = c"
    using assms(1) by (rule distinct_snd_unique [OF distinct_table_labels])
  with c' show ?thesis by simp
qed

lemma numeric_reading_evaluated:
  assumes "numeric_reading data"
  shows "evaluated data threshold_table = threshold_table"
proof -
  have "\<forall>r\<in>set threshold_table. \<not> raises data (fst r)"
    using assms by (auto simp: numeric_reading_def required_keys_def threshold_table_def)
  then show ?thesis by (simp add: evaluated_def)
qed

lemmas rule_eval_defs =
  check_custom_rules_def rules_try_body_def mk_reading_def if_append_def item_gt_def
  item_lt_def getitem_def py_or_def get_default_def

lemma all_thresholds_alerts:
  "check_custom_rules all_thresholds_reading =
     [ ''Maintenance Due / High Mileage Warning'', ''Engine Overheating'', ''Battery Failure'',
       ''Low Oil Pressure Warning'', ''Brake Pads Critically Worn'', ''Suspension Failure Risk'',
       ''Low Tire Pressure'', ''Coolant Critically Low'', ''Brake Fluid Critically Low'',
       ''Transmission Overheating'' ]"
  by (simp add: rule_eval_defs all_thresholds_reading_def)

lemma no_threshold_alerts: "check_custom_rules no_threshold_reading = []"
  by (simp add: rule_eval_defs no_threshold_reading_def)

lemma boundary_alerts: "check_custom_rules boundary_reading = []"
  by (simp add: rule_eval_defs boundary_reading_def)

lemma missing_odometer_alerts: "check_custom_rules missing_odometer_reading = []"
  by (simp add: rule_eval_defs missing_odometer_reading_def)

lemma missing_engine_temp_alerts:
  "check_custom_rules missing_engine_temp_reading = [''Maintenance Due / High Mileage Warning'']"
  by (simp add: rule_eval_defs missing_engine_temp_reading_def)

lemma numeric_example_readings:
  "numeric_reading all_thresholds_reading" "numeric_reading no_threshold_reading"
  "numeric_reading boundary_reading"
  by (simp_all add: numeric_reading_def required_keys_def numeric_at_def mk_reading_def
        all_thresholds_reading_def no_threshold_reading_def boundary_reading_def)

text \<open>
  Claim C1. On a reading that holds a number under every required key,
  \<open>check_custom_rules\<close> returns exactly the labels of the threshold table whose strict
  inequality holds on the reading, each label once. The reading of the specification that
  satisfies every threshold gets all ten labels, the one that satisfies none gets the
  empty list, and a value that sits exactly on the threshold of its row never triggers the
  label of that row.
\<close>

theorem check_custom_rules_numeric:
  "(numeric_reading data \<longrightarrow>
      set (check_custom_rules data) = {l. \<exists>c. (c, l) \<in> set threshold_table \<and> holds data c}
      \<and> distinct (check_custom_rules data))
   \<and> check_custom_rules all_thresholds_reading =
       [ ''Maintenance Due / High Mileage Warning'', ''Engine Overheating'',
         ''Battery Failure'', ''Low Oil Pressure Warning'', ''Brake Pads Critically Worn'',
         ''Suspension Failure Risk'', ''Low Tire Pressure'', ''Coolant Critically Low'',
         ''Brake Fluid Critically Low'', ''Transmission Overheating'' ]
   \<and> check_custom_rules no_threshold_reading = []
   \<and> check_custom_rules boundary_reading = []
   \<and> ((Above k x, l) \<in> set threshold_table \<or> (Below k x, l) \<in> set threshold_table \<longrightarrow>
        data k = Some (Number (Fin x)) \<longrightarrow> l \<notin> set (check_custom_rules data))"
proof -
  have general: "numeric_reading data \<longrightarrow>
      set (check_custom_rules data) = {l. \<exists>c. (c, l) \<in> set threshold_table \<and> holds data c}
      \<and> distinct (check_custom_rules data)"
  proof
    assume "numeric_reading data"
    then have "check_custom_rules data = triggered data threshold_table"
      by (simp add: check_custom_rules_table numeric_reading_evaluated)
    then have "set (check_custom_rules data)
                 = {l. \<exists>c. (c, l) \<in> set threshold_table \<and> holds data c}"
      by (simp add: set_triggered)
    then show "set (check_custom_rules data)
                 = {l. \<exists>c. (c, l) \<in> set threshold_table \<and> holds data c}
               \<and> distinct (check_custom_rules data)"
      using distinct_check_custom_rules by blast
  qed
  have edge: "l \<notin> set (check_custom_rules data)"
    if row: "(Above k x, l) \<in> set threshold_table \<or> (Below k x, l) \<in> set threshold_table"
      and at: "data k = Some (Number (Fin x))"
  proof
    assume "l \<in> set (check_custom_rules data)"
    with row have "holds data (Above k x) \<or> holds data (Below k x)"
      using alert_from_own_row by blast
    with at show False by (simp add: numeric_at_def)
  qed
  from edge have edge':
    "(Above k x, l) \<in> set threshold_table \<or> (Below k x, l) \<in> set threshold_table \<longrightarrow>
       data k = Some (Number (Fin x)) \<longrightarrow> l \<notin> set (check_custom_rules data)"
    by blast
  show ?thesis
    by (intro conjI general all_thresholds_alerts no_threshold_alerts boundary_alerts edge')
qed

theorem check_custom_rules_numeric_witness:
  "numeric_reading no_threshold_reading
   \<and> set (check_custom_rules no_threshold_reading) =
       {l. \<exists>c. (c, l) \<in> set threshold_table \<and> holds no_threshold_reading c}
   \<and> (Above ''engine_temp_c'' 110, ''Engine Overheating'') \<in> set threshold_table
   \<and> boundary_reading ''engine_temp_c'' = Some (Number (Fin 110))
   \<and> ''Engine Overheating'' \<notin> set (check_custom_rules boundary_reading)"
  using check_custom_rules_numeric [of no_threshold_reading "''engine_temp_c''" 110
          "''Engine Overheating''"]
        check_custom_rules_numeric [of boundary_reading "''engine_temp_c''" 110
          "''Engine Overheating''"]
        numeric_example_readings
  by (simp add: threshold_table_def boundary_reading_def mk_reading_def)

section \<open>Readings with a missing or invalid value\<close>

lemma missing_key_raises:
  assumes "data (reads c) = None"
  shows "raises data c"
  using assms by (cases c) (simp_all add: numeric_at_def)

lemma missing_engine_temp_evaluated:
  "evaluated missing_engine_temp_reading threshold_table =
     [(Above ''odometer_km'' 300000, ''Maintenance Due / High Mileage Warning'')]"
  by (simp add: evaluated_def threshold_table_def missing_engine_temp_reading_def
        mk_reading_def numeric_at_def)

lemma missing_engine_temp_fail_open:
  "triggered missing_engine_temp_reading threshold_table =
     [''Maintenance Due / High Mileage Warning'', ''Battery Failure'']"
  by (simp add: triggered_def threshold_table_def missing_engine_temp_reading_def
        mk_reading_def numeric_at_def)

text \<open>
  Claim C3. \<open>check_custom_rules\<close> never raises, and a missing or invalid key makes it
  skip that one rule and still evaluate the rules after it. The function does return a
  list on every reading, but the second half fails: on the reading without
  \<open>odometer_km\<close> the engine rule can be evaluated and holds, and the result is empty all
  the same.
\<close>

theorem check_custom_rules_skips_later_rules:
  "check_custom_rules missing_odometer_reading = []
   \<and> (Above ''engine_temp_c'' 110, ''Engine Overheating'') \<in> set threshold_table
   \<and> \<not> raises missing_odometer_reading (Above ''engine_temp_c'' 110)
   \<and> holds missing_odometer_reading (Above ''engine_temp_c'' 110)"
  by (simp add: missing_odometer_alerts threshold_table_def)
     (simp add: missing_odometer_reading_def mk_reading_def numeric_at_def)

text \<open>
  Claim C4, as stated: a reading that lacks a required key gets the empty list, however
  many earlier rules hold. It fails on the reading past the mileage threshold that lacks
  \<open>engine_temp_c\<close>.
\<close>

theorem check_custom_rules_keeps_earlier_alerts:
  "''engine_temp_c'' \<in> set required_keys
   \<and> missing_engine_temp_reading ''engine_temp_c'' = None
   \<and> check_custom_rules missing_engine_temp_reading \<noteq> []"
  by (simp add: missing_engine_temp_alerts required_keys_def)
     (simp add: missing_engine_temp_reading_def mk_reading_def)

text \<open>
  Claim C4, amended. On a reading that lacks a required key \<open>check_custom_rules\<close> still
  returns a list: it holds the alert of every rule that was evaluated before the first
  failing access and whose condition holds, and it does not hold the alert of the rule
  that reads the missing key.
\<close>

theorem check_custom_rules_missing_key:
  assumes "k \<in> set required_keys" and "data k = None"
  shows "(\<forall>r\<in>set (evaluated data threshold_table).
            holds data (fst r) \<longrightarrow> snd r \<in> set (check_custom_rules data))
         \<and> (\<forall>r\<in>set threshold_table.
            reads (fst r) = k \<longrightarrow> snd r \<notin> set (check_custom_rules data))"
proof (intro conjI ballI impI)
  fix r
  assume "r \<in> set (evaluated data threshold_table)" and "holds data (fst r)"
  then show "snd r \<in> set (check_custom_rules data)"
    by (simp add: check_custom_rules_table triggered_def)
next
  fix r
  assume r: "r \<in> set threshold_table" and k: "reads (fst r) = k"
  show "snd r \<notin> set (check_custom_rules data)"
  proof
    assume "snd r \<in> set (check_custom_rules data)"
    with r have "(fst r, snd r) \<in> set (evaluated data threshold_table)"
      using alert_from_own_row [of "fst r" "snd r" data] by simp
    then have "\<not> raises data (fst r)"
      using evaluated_no_raise by fastforce
    moreover have "raises data (fst r)"
      using k assms(2) by (simp add: missing_key_raises)
    ultimately show False by simp
  qed
qed

theorem check_custom_rules_missing_key_witness:
  "''engine_temp_c'' \<in> set required_keys
   \<and> missing_engine_temp_reading ''engine_temp_c'' = None
   \<and> ''Maintenance Due / High Mileage Warning''
        \<in> set (check_custom_rules missing_engine_temp_reading)
   \<and> ''Engine Overheating'' \<notin> set (check_custom_rules missing_engine_temp_reading)"
proof -
  have k: "''engine_temp_c'' \<in> set required_keys"
    by (simp add: required_keys_def)
  have none: "missing_engine_temp_reading ''engine_temp_c'' = None"
    by (simp add: missing_engine_temp_reading_def mk_reading_def)
  note both = check_custom_rules_missing_key
                [of "''engine_temp_c''" missing_engine_temp_reading, OF k none]
  have "(Above ''odometer_km'' 300000, ''Maintenance Due / High Mileage Warning'')
          \<in> set (evaluated missing_engine_temp_reading threshold_table)"
    by (simp add: missing_engine_temp_evaluated)
  moreover have "holds missing_engine_temp_reading (Above ''odometer_km'' 300000)"
    by (simp add: missing_engine_temp_reading_def mk_reading_def numeric_at_def)
  ultimately have kept: "''Maintenance Due / High Mileage Warning''
      \<in> set (check_custom_rules missing_engine_temp_reading)"
    using both by fastforce
  have "(Above ''engine_temp_c'' 110, ''Engine Overheating'') \<in> set threshold_table"
    by (simp add: threshold_table_def)
  then have "''Engine Overheating'' \<notin> set (check_custom_rules missing_engine_temp_reading)"
    using both by fastforce
  with k none kept show ?thesis by simp
qed

text \<open>
  Claim C10. The result of \<open>check_custom_rules\<close> holds only labels of the ten fixed
  alerts, each at most once. The rules are evaluated in the order of the table (odometer,
  engine temperature, battery, oil pressure, brake pads, suspension, tire pressure,
  coolant, brake fluid, transmission), and the result is exactly the labels of the rules
  that hold among those before the first access that raises. On the reading without
  \<open>engine_temp_c\<close> that is one alert: not the empty list, and not the two alerts that
  evaluating every rule would give.
\<close>

theorem check_custom_rules_prefix:
  "set (check_custom_rules data) \<subseteq> set alert_labels
   \<and> alert_labels =
       [ ''Maintenance Due / High Mileage Warning'', ''Engine Overheating'',
         ''Battery Failure'', ''Low Oil Pressure Warning'', ''Brake Pads Critically Worn'',
         ''Suspension Failure Risk'', ''Low Tire Pressure'', ''Coolant Critically Low'',
         ''Brake Fluid Critically Low'', ''Transmission Overheating'' ]
   \<and> distinct (check_custom_rules data)
   \<and> map (\<lambda>r. reads (fst r)) threshold_table =
       [ ''odometer_km'', ''engine_temp_c'', ''battery_voltage_v'', ''oil_pressure_kpa'',
         ''brake_pad_wear_mm_front'', ''suspension_health_pct'', ''tire_pressure_psi_fl'',
         ''coolant_level_pct'', ''brake_fluid_level_pct'', ''transmission_fluid_temp_c'' ]
   \<and> check_custom_rules data = triggered data (evaluated data threshold_table)
   \<and> check_custom_rules missing_engine_temp_reading =
       [''Maintenance Due / High Mileage Warning'']
   \<and> triggered missing_engine_temp_reading threshold_table =
       [''Maintenance Due / High Mileage Warning'', ''Battery Failure'']"
proof -
  have labels: "alert_labels =
       [ ''Maintenance Due / High Mileage Warning'', ''Engine Overheating'',
         ''Battery Failure'', ''Low Oil Pressure Warning'', ''Brake Pads Critically Worn'',
         ''Suspension Failure Risk'', ''Low Tire Pressure'', ''Coolant Critically Low'',
         ''Brake Fluid Critically Low'', ''Transmission Overheating'' ]"
    by (simp add: alert_labels_def table_labels)
  have keys: "map (\<lambda>r. reads (fst r)) threshold_table =
       [ ''odometer_km'', ''engine_temp_c'', ''battery_voltage_v'', ''oil_pressure_kpa'',
         ''brake_pad_wear_mm_front'', ''suspension_health_pct'', ''tire_pressure_psi_fl'',
         ''coolant_level_pct'', ''brake_fluid_level_pct'', ''transmission_fluid_temp_c'' ]"
    by (simp add: table_keys required_keys_def)
  show ?thesis
    by (intro conjI check_custom_rules_labels labels distinct_check_custom_rules keys
          check_custom_rules_table missing_engine_temp_alerts missing_engine_temp_fail_open)
qed

theorem check_custom_rules_prefix_witness:
  "check_custom_rules boundary_reading = triggered boundary_reading threshold_table
   \<and> check_custom_rules missing_odometer_reading = triggered missing_odometer_reading []"
proof -
  have "evaluated boundary_reading threshold_table = threshold_table"
    by (simp add: numeric_reading_evaluated numeric_example_readings)
  moreover have "evaluated missing_odometer_reading threshold_table = []"
    by (simp add: evaluated_def threshold_table_def missing_odometer_reading_def
          mk_reading_def numeric_at_def)
  ultimately show ?thesis
    using check_custom_rules_prefix [of boundary_reading]
          check_custom_rules_prefix [of missing_odometer_reading]
    by simp
qed

section \<open>Fusion\<close>

lemma all_alerts_cases:
  "all_alerts ra l c =
     (if l \<noteq> ''None'' \<and> l \<noteq> ''Normal'' \<and> num_ge c 50 then set ra \<union> {l} else set ra)"
  by (simp add: all_alerts_def)

lemma num_lt_not_ge: "num_lt c x \<Longrightarrow> \<not> num_ge c x"
  by (cases c) simp_all

text \<open>
  Claim C2. The fused set is the rule alerts together with the predicted label when the
  label is neither \<open>''None''\<close> nor \<open>''Normal''\<close> (compared exactly, so \<open>''none''\<close> is not a
  sentinel) and the confidence is at least 50; otherwise it is the rule alerts
  unchanged. For a label that is not already a rule alert the two cases are told apart by
  the result. The label is never added below 50, and the two sentinels are never added,
  not even at confidence 100.
\<close>

theorem all_alerts_fusion:
  "(l \<noteq> ''None'' \<and> l \<noteq> ''Normal'' \<and> num_ge c 50 \<longrightarrow> all_alerts ra l c = set ra \<union> {l})
   \<and> (\<not> (l \<noteq> ''None'' \<and> l \<noteq> ''Normal'' \<and> num_ge c 50) \<longrightarrow> all_alerts ra l c = set ra)
   \<and> (l \<notin> set ra \<longrightarrow>
        (all_alerts ra l c = set ra \<union> {l}) = (l \<noteq> ''None'' \<and> l \<noteq> ''Normal'' \<and> num_ge c 50))
   \<and> (num_lt c 50 \<longrightarrow> all_alerts ra l c = set ra)
   \<and> all_alerts ra ''None'' (Fin 100) = set ra
   \<and> all_alerts ra ''Normal'' (Fin 100) = set ra
   \<and> all_alerts [] ''none'' (Fin 100) = {''none''}
   \<and> all_alerts [] ''Engine Overheating'' (Fin 50) = {''Engine Overheating''}"
proof -
  have below: "num_lt c 50 \<longrightarrow> all_alerts ra l c = set ra"
    by (simp add: all_alerts_cases num_lt_not_ge)
  have told: "l \<notin> set ra \<longrightarrow>
        (all_alerts ra l c = set ra \<union> {l}) = (l \<noteq> ''None'' \<and> l \<noteq> ''Normal'' \<and> num_ge c 50)"
    by (auto simp: all_alerts_cases)
  show ?thesis
    using below told by (simp add: all_alerts_cases)
qed

theorem all_alerts_fusion_witness:
  "all_alerts [''Battery Failure''] ''Engine Overheating'' (Fin 80)
     = {''Battery Failure'', ''Engine Overheating''}
   \<and> all_alerts [''Battery Failure''] ''Engine Overheating'' (Fin 49.9) = {''Battery Failure''}
   \<and> all_alerts [''Battery Failure''] ''Engine Overheating'' NaN = {''Battery Failure''}"
  using all_alerts_fusion [of "''Engine Overheating''" "Fin 80" "[''Battery Failure'']"]
        all_alerts_fusion [of "''Engine Overheating''" "Fin 49.9" "[''Battery Failure'']"]
        all_alerts_fusion [of "''Engine Overheating''" NaN "[''Battery Failure'']"]
  by (simp add: insert_commute)

section \<open>Prediction without artifacts\<close>

lemma predict_failure_not_loaded:
  assumes "model arts = None \<or> scaler arts = None \<or> encoder arts = None
           \<or> training_columns arts = None"
  shows "predict_failure ops infer arts data = Inr (''Model not loaded'', Fin 0, None)"
  using assms
  by (auto simp: predict_failure_def model_not_loaded_def split: option.splits)

lemma load_model_assets_absent:
  assumes "model_pkl files = None \<or> scaler_pkl files = None \<or> encoder_pkl files = None
           \<or> training_columns_pkl files = None"
  shows "load_model_assets files = no_artifacts"
  using assms by (auto simp: load_model_assets_def split: option.splits)

lemma diagnose_not_loaded:
  assumes "predict_failure ops infer arts data = Inr (''Model not loaded'', Fin 0, None)"
  shows "diagnose ops infer arts data = Inr (set (check_custom_rules data))"
  using assms by (simp add: diagnose_def bind_err_def all_alerts_def)

lemma not_loaded_no_label: "''Model not loaded'' \<notin> set alert_labels"
  by (simp add: alert_labels_def threshold_table_def)

text \<open>
  Claim C5. When any of the four artifact files is absent, \<open>load_model_assets\<close> yields no
  artifact at all, \<open>predict_failure\<close> returns its ``model not loaded'' value instead of
  raising, and the diagnosis completes with exactly the rule alerts. The same holds
  whenever one of the four artifacts is None.
\<close>

theorem predict_failure_degrades:
  "(model_pkl files = None \<or> scaler_pkl files = None \<or> encoder_pkl files = None
      \<or> training_columns_pkl files = None \<longrightarrow>
      load_model_assets files = no_artifacts
      \<and> predict_failure ops infer (load_model_assets files) data = Inr model_not_loaded
      \<and> diagnose ops infer (load_model_assets files) data = Inr (set (check_custom_rules data)))
   \<and> (model arts = None \<or> scaler arts = None \<or> encoder arts = None
      \<or> training_columns arts = None \<longrightarrow>
      predict_failure ops infer arts data = Inr model_not_loaded
      \<and> diagnose ops infer arts data = Inr (set (check_custom_rules data)))"
proof (intro conjI impI)
  assume absent: "model_pkl files = None \<or> scaler_pkl files = None \<or> encoder_pkl files = None
      \<or> training_columns_pkl files = None"
  then show none: "load_model_assets files = no_artifacts"
    by (rule load_model_assets_absent)
  have p: "predict_failure ops infer no_artifacts data = Inr (''Model not loaded'', Fin 0, None)"
    by (rule predict_failure_not_loaded) (simp add: no_artifacts_def)
  with none show "predict_failure ops infer (load_model_assets files) data = Inr model_not_loaded"
    by (simp add: model_not_loaded_def)
  from p none
  show "diagnose ops infer (load_model_assets files) data = Inr (set (check_custom_rules data))"
    by (simp add: diagnose_not_loaded)
next
  assume missing: "model arts = None \<or> scaler arts = None \<or> encoder arts = None
      \<or> training_columns arts = None"
  then have p: "predict_failure ops infer arts data = Inr (''Model not loaded'', Fin 0, None)"
    by (rule predict_failure_not_loaded)
  then show "predict_failure ops infer arts data = Inr model_not_loaded"
    by (simp add: model_not_loaded_def)
  from p show "diagnose ops infer arts data = Inr (set (check_custom_rules data))"
    by (rule diagnose_not_loaded)
qed

theorem predict_failure_degrades_witness:
  "scaler_pkl files_without_scaler = None
   \<and> predict_failure exact_ops always_overheating (load_model_assets files_without_scaler)
        all_thresholds_reading = Inr model_not_loaded
   \<and> diagnose exact_ops always_overheating (load_model_assets files_without_scaler)
        no_threshold_reading = Inr {}"
proof -
  have absent: "scaler_pkl files_without_scaler = None"
    by (simp add: files_without_scaler_def)
  then have any: "model_pkl files_without_scaler = None \<or> scaler_pkl files_without_scaler = None
      \<or> encoder_pkl files_without_scaler = None
      \<or> training_columns_pkl files_without_scaler = None"
    by simp
  have "predict_failure exact_ops always_overheating (load_model_assets files_without_scaler)
          all_thresholds_reading = Inr model_not_loaded"
    using any
      predict_failure_degrades [of files_without_scaler exact_ops always_overheating
        all_thresholds_reading artifacts_without_encoder]
    by blast
  moreover
  have "diagnose exact_ops always_overheating (load_model_assets files_without_scaler)
          no_threshold_reading = Inr (set (check_custom_rules no_threshold_reading))"
    using any
      predict_failure_degrades [of files_without_scaler exact_ops always_overheating
        no_threshold_reading artifacts_without_encoder]
    by blast
  ultimately show ?thesis
    using absent by (simp add: no_threshold_alerts)
qed

text \<open>
  Claim C9. When any of the four artifacts is None, \<open>predict_failure\<close> returns exactly
  \<open>(''Model not loaded'', 0, None)\<close>. The confidence 0 is below the fusion threshold, so
  the fused set is the set of rule alerts, and \<open>''Model not loaded''\<close>, which is not one of
  the ten labels, is not in it.
\<close>

theorem model_not_loaded_never_alert:
  assumes "model arts = None \<or> scaler arts = None \<or> encoder arts = None
           \<or> training_columns arts = None"
  shows "predict_failure ops infer arts data = Inr (''Model not loaded'', Fin 0, None)
         \<and> num_lt (Fin 0) 50
         \<and> all_alerts ra ''Model not loaded'' (Fin 0) = set ra
         \<and> diagnose ops infer arts data = Inr (set (check_custom_rules data))
         \<and> ''Model not loaded'' \<notin> set (check_custom_rules data)"
proof -
  have p: "predict_failure ops infer arts data = Inr (''Model not loaded'', Fin 0, None)"
    using assms by (rule predict_failure_not_loaded)
  have "''Model not loaded'' \<notin> set (check_custom_rules data)"
    using check_custom_rules_labels not_loaded_no_label by blast
  with p show ?thesis
    by (simp add: diagnose_not_loaded all_alerts_cases)
qed

theorem model_not_loaded_never_alert_witness:
  "encoder artifacts_without_encoder = None
   \<and> predict_failure exact_ops always_overheating artifacts_without_encoder
        all_thresholds_reading = Inr (''Model not loaded'', Fin 0, None)
   \<and> diagnose exact_ops always_overheating artifacts_without_encoder no_threshold_reading
        = Inr {}"
proof -
  have none: "encoder artifacts_without_encoder = None"
    by (simp add: artifacts_without_encoder_def)
  then have any: "model artifacts_without_encoder = None
      \<or> scaler artifacts_without_encoder = None \<or> encoder artifacts_without_encoder = None
      \<or> training_columns artifacts_without_encoder = None"
    by simp
  show ?thesis
    using none
      model_not_loaded_never_alert [OF any, of exact_ops always_overheating
        all_thresholds_reading "[]"]
      model_not_loaded_never_alert [OF any, of exact_ops always_overheating
        no_threshold_reading "[]"]
    by (simp add: no_threshold_alerts)
qed

section \<open>Feature engineering and reindexing\<close>

lemma temp_pressure_ratio_present:
  assumes "data ''engine_temp_c'' = Some t" and "data ''oil_pressure_kpa'' = Some p"
  shows "temp_pressure_ratio ops data
           = bind_err (series_add ops p (float_cell ops lit_1e_6)) (series_div ops t)"
  using assms by (simp add: temp_pressure_ratio_def bind_err_def column_def)

lemma temp_pressure_ratio_missing:
  assumes "data ''engine_temp_c'' = None \<or> data ''oil_pressure_kpa'' = None"
  shows "\<exists>err. temp_pressure_ratio ops data = Inl err"
  using assms
  by (auto simp: temp_pressure_ratio_def bind_err_def column_def split: option.splits)

lemma total_brake_wear_present:
  assumes "data ''brake_pad_wear_mm_front'' = Some f"
      and "data ''brake_pad_wear_mm_rear'' = Some r"
  shows "total_brake_wear ops data = series_add ops f r"
  using assms by (simp add: total_brake_wear_def bind_err_def column_def)

lemma total_brake_wear_missing:
  assumes "data ''brake_pad_wear_mm_front'' = None \<or> data ''brake_pad_wear_mm_rear'' = None"
  shows "\<exists>err. total_brake_wear ops data = Inl err"
  using assms
  by (auto simp: total_brake_wear_def bind_err_def column_def split: option.splits)

text \<open>The two assignments of \<open>engineer_features\<close>: the second reads the frame the first
  has changed, but not the column it has set.\<close>

lemma total_brake_wear_after_ratio:
  "total_brake_wear ops (data(''temp_pressure_ratio'' \<mapsto> v)) = total_brake_wear ops data"
  by (simp add: total_brake_wear_def column_def)

lemma engineer_features_ratio:
  "engineer_features ops data ''temp_pressure_ratio''
     = Some (try_except (temp_pressure_ratio ops data) (float_cell ops (Fin 0)))"
  by (simp add: engineer_features_def Let_def)

lemma engineer_features_wear:
  "engineer_features ops data ''total_brake_wear''
     = Some (try_except (total_brake_wear ops data) (float_cell ops (Fin 0)))"
  by (simp add: engineer_features_def Let_def total_brake_wear_after_ratio)

lemma engineer_features_other:
  "k \<noteq> ''temp_pressure_ratio'' \<Longrightarrow> k \<noteq> ''total_brake_wear'' \<Longrightarrow>
     engineer_features ops data k = data k"
  by (simp add: engineer_features_def Let_def)

lemma reindex_columns: "map fst (reindex ops cols df) = cols"
  by (simp add: reindex_def comp_def)

lemma reindex_cell:
  "i < length cols \<Longrightarrow>
     snd (reindex ops cols df ! i) = (case df (cols ! i) of None \<Rightarrow> int_cell ops 0 | Some v \<Rightarrow> v)"
  by (simp add: reindex_def)

lemma predict_failure_loaded:
  assumes "model arts = Some m" "scaler arts = Some s" "encoder arts = Some e"
      and "training_columns arts = Some cols" "cols \<noteq> []"
  shows "predict_failure ops infer arts data =
           bind_err (infer m s e (feature_vector ops cols data))
             (\<lambda>(label, confidence, proba). Inr (label, confidence, Some proba))"
  using assms by (simp add: predict_failure_def)

text \<open>
  Claim C6. In \<open>predict_failure\<close> the two derived features are what the frame arithmetic
  gives for \<open>engine_temp_c / (oil_pressure_kpa + 1e-6)\<close> and for
  \<open>brake_pad_wear_mm_front + brake_pad_wear_mm_rear\<close>, whenever that arithmetic returns;
  whenever the computation raises, and it does when a source field is missing, the
  feature is 0.0 instead and nothing is aborted; every other column is left as it is.
  The feature vector has exactly the training columns, in their order: a column the frame
  lacks is 0, a column the list lacks is gone. Nothing up to there raises: with the four
  artifacts loaded, \<open>predict_failure\<close> is the library inference on that vector.
\<close>

theorem feature_vector_contract:
  "(data ''engine_temp_c'' = Some t \<and> data ''oil_pressure_kpa'' = Some p
      \<and> series_add ops p (float_cell ops lit_1e_6) = Inr d \<and> series_div ops t d = Inr q \<longrightarrow>
      engineer_features ops data ''temp_pressure_ratio'' = Some q)
   \<and> ((\<exists>err. temp_pressure_ratio ops data = Inl err) \<longrightarrow>
      engineer_features ops data ''temp_pressure_ratio'' = Some (float_cell ops (Fin 0)))
   \<and> (data ''engine_temp_c'' = None \<or> data ''oil_pressure_kpa'' = None \<longrightarrow>
      (\<exists>err. temp_pressure_ratio ops data = Inl err))
   \<and> (data ''brake_pad_wear_mm_front'' = Some f \<and> data ''brake_pad_wear_mm_rear'' = Some r
      \<and> series_add ops f r = Inr w \<longrightarrow>
      engineer_features ops data ''total_brake_wear'' = Some w)
   \<and> ((\<exists>err. total_brake_wear ops data = Inl err) \<longrightarrow>
      engineer_features ops data ''total_brake_wear'' = Some (float_cell ops (Fin 0)))
   \<and> (data ''brake_pad_wear_mm_front'' = None \<or> data ''brake_pad_wear_mm_rear'' = None \<longrightarrow>
      (\<exists>err. total_brake_wear ops data = Inl err))
   \<and> (k \<noteq> ''temp_pressure_ratio'' \<and> k \<noteq> ''total_brake_wear'' \<longrightarrow>
      engineer_features ops data k = data k)
   \<and> map fst (feature_vector ops cols data) = cols
   \<and> (\<forall>i<length cols.
        snd (feature_vector ops cols data ! i)
          = (case engineer_features ops data (cols ! i) of
               None \<Rightarrow> int_cell ops 0 | Some v \<Rightarrow> v))
   \<and> (model arts = Some m \<and> scaler arts = Some s \<and> encoder arts = Some e
        \<and> training_columns arts = Some cols \<and> cols \<noteq> [] \<longrightarrow>
      predict_failure ops infer arts data =
        bind_err (infer m s e (feature_vector ops cols data))
          (\<lambda>(label, confidence, proba). Inr (label, confidence, Some proba)))"
proof (intro conjI impI allI)
  assume "data ''engine_temp_c'' = Some t \<and> data ''oil_pressure_kpa'' = Some p
      \<and> series_add ops p (float_cell ops lit_1e_6) = Inr d \<and> series_div ops t d = Inr q"
  then show "engineer_features ops data ''temp_pressure_ratio'' = Some q"
    by (simp add: engineer_features_ratio temp_pressure_ratio_present try_except_def
          bind_err_def)
next
  assume "\<exists>err. temp_pressure_ratio ops data = Inl err"
  then show "engineer_features ops data ''temp_pressure_ratio'' = Some (float_cell ops (Fin 0))"
    by (auto simp: engineer_features_ratio try_except_def)
next
  assume "data ''engine_temp_c'' = None \<or> data ''oil_pressure_kpa'' = None"
  then show "\<exists>err. temp_pressure_ratio ops data = Inl err"
    by (rule temp_pressure_ratio_missing)
next
  assume "data ''brake_pad_wear_mm_front'' = Some f \<and> data ''brake_pad_wear_mm_rear'' = Some r
      \<and> series_add ops f r = Inr w"
  then show "engineer_features ops data ''total_brake_wear'' = Some w"
    by (simp add: engineer_features_wear total_brake_wear_present try_except_def)
next
  assume "\<exists>err. total_brake_wear ops data = Inl err"
  then show "engineer_features ops data ''total_brake_wear'' = Some (float_cell ops (Fin 0))"
    by (auto simp: engineer_features_wear try_except_def)
next
  assume "data ''brake_pad_wear_mm_front'' = None \<or> data ''brake_pad_wear_mm_rear'' = None"
  then show "\<exists>err. total_brake_wear ops data = Inl err"
    by (rule total_brake_wear_missing)
next
  assume "k \<noteq> ''temp_pressure_ratio'' \<and> k \<noteq> ''total_brake_wear''"
  then show "engineer_features ops data k = data k"
    by (simp add: engineer_features_other)
next
  show "map fst (feature_vector ops cols data) = cols"
    by (simp add: feature_vector_def reindex_columns)
next
  fix i assume "i < length cols"
  then show "snd (feature_vector ops cols data ! i)
          = (case engineer_features ops data (cols ! i) of
               None \<Rightarrow> int_cell ops 0 | Some v \<Rightarrow> v)"
    by (simp add: feature_vector_def reindex_cell)
next
  assume "model arts = Some m \<and> scaler arts = Some s \<and> encoder arts = Some e
        \<and> training_columns arts = Some cols \<and> cols \<noteq> []"
  then show "predict_failure ops infer arts data =
        bind_err (infer m s e (feature_vector ops cols data))
          (\<lambda>(label, confidence, proba). Inr (label, confidence, Some proba))"
    by (simp add: predict_failure_loaded)
qed

text \<open>The contract at the reading without the rear brake pad, and at the one whose oil
  pressure is not a number: under the operators that raise there the ratio is 0.0, under
  the operators that mask it the ratio is NaN.\<close>

theorem feature_vector_contract_witness:
  "no_rear_reading ''brake_pad_wear_mm_rear'' = None
   \<and> feature_vector exact_ops example_columns no_rear_reading =
       [ (''total_brake_wear'', Number (Fin 0)),
         (''engine_temp_c'', Number (Fin 90)),
         (''cabin_humidity_pct'', Number (Fin 0)),
         (''temp_pressure_ratio'',
            Number (Fin (90 / (300 + 4722366482869645 / 4722366482869645213696)))) ]
   \<and> engineer_features exact_ops no_oil_value_reading ''temp_pressure_ratio''
       = Some (Number (Fin 0))
   \<and> engineer_features masking_ops no_oil_value_reading ''temp_pressure_ratio''
       = Some (Number NaN)"
proof -
  have temp: "no_rear_reading ''engine_temp_c'' = Some (Number (Fin 90))"
    and oil: "no_rear_reading ''oil_pressure_kpa'' = Some (Number (Fin 300))"
    and rear: "no_rear_reading ''brake_pad_wear_mm_rear'' = None"
    by (simp_all add: no_rear_reading_def mk_reading_def)
  have temp': "no_oil_value_reading ''engine_temp_c'' = Some (Number (Fin 90))"
    and oil': "no_oil_value_reading ''oil_pressure_kpa'' = Some NonNumeric"
    by (simp_all add: no_oil_value_reading_def no_rear_reading_def mk_reading_def)
  note contract = feature_vector_contract
    [where data = no_rear_reading and ops = exact_ops and cols = example_columns
       and t = "Number (Fin 90)" and p = "Number (Fin 300)"
       and d = "Number (Fin (300 + 4722366482869645 / 4722366482869645213696))"
       and q = "Number (Fin (90 / (300 + 4722366482869645 / 4722366482869645213696)))"]
  have sum: "series_add exact_ops (Number (Fin 300)) (float_cell exact_ops lit_1e_6)
       = Inr (Number (Fin (300 + 4722366482869645 / 4722366482869645213696)))"
    by (simp add: exact_ops_def lit_1e_6_def)
  have quotient: "series_div exact_ops (Number (Fin 90))
         (Number (Fin (300 + 4722366482869645 / 4722366482869645213696)))
       = Inr (Number (Fin (90 / (300 + 4722366482869645 / 4722366482869645213696))))"
    by (simp add: exact_ops_def)
  have ratio: "engineer_features exact_ops no_rear_reading ''temp_pressure_ratio''
       = Some (Number (Fin (90 / (300 + 4722366482869645 / 4722366482869645213696))))"
    using contract [THEN conjunct1] temp oil sum quotient by simp
  have "\<exists>err. total_brake_wear exact_ops no_rear_reading = Inl err"
    using contract [THEN conjunct2, THEN conjunct2, THEN conjunct2, THEN conjunct2,
                    THEN conjunct2, THEN conjunct1] rear
    by simp
  then have wear: "engineer_features exact_ops no_rear_reading ''total_brake_wear''
       = Some (Number (Fin 0))"
    using contract [THEN conjunct2, THEN conjunct2, THEN conjunct2, THEN conjunct2,
                    THEN conjunct1]
    by (simp add: exact_ops_def)
  have fill: "int_cell exact_ops 0 = Number (Fin 0)"
    by (simp add: exact_ops_def)
  have cells: "feature_vector exact_ops example_columns no_rear_reading =
       map (\<lambda>c. (c, case engineer_features exact_ops no_rear_reading c of
                       None \<Rightarrow> int_cell exact_ops 0 | Some v \<Rightarrow> v)) example_columns"
    by (simp add: feature_vector_def reindex_def)
  have humidity: "engineer_features exact_ops no_rear_reading ''cabin_humidity_pct'' = None"
    by (simp add: engineer_features_other no_rear_reading_def mk_reading_def)
  have engine: "engineer_features exact_ops no_rear_reading ''engine_temp_c''
       = Some (Number (Fin 90))"
    by (simp add: engineer_features_other temp)
  have vector: "feature_vector exact_ops example_columns no_rear_reading =
       [ (''total_brake_wear'', Number (Fin 0)),
         (''engine_temp_c'', Number (Fin 90)),
         (''cabin_humidity_pct'', Number (Fin 0)),
         (''temp_pressure_ratio'',
            Number (Fin (90 / (300 + 4722366482869645 / 4722366482869645213696)))) ]"
    unfolding cells unfolding example_columns_def
    by (simp only: list.map ratio wear humidity engine option.case fill)
  have "temp_pressure_ratio exact_ops no_oil_value_reading = Inl TypeError"
    by (simp add: temp_pressure_ratio_present [OF temp' oil'] exact_ops_def bind_err_def)
  then have raised: "engineer_features exact_ops no_oil_value_reading ''temp_pressure_ratio''
       = Some (Number (Fin 0))"
    using feature_vector_contract
            [where data = no_oil_value_reading and ops = exact_ops,
             THEN conjunct2, THEN conjunct1]
    by (simp add: exact_ops_def)
  have "series_add masking_ops NonNumeric (float_cell masking_ops lit_1e_6)
          = Inr (Number NaN)"
    and "series_div masking_ops (Number (Fin 90)) (Number NaN) = Inr (Number NaN)"
    by (simp_all add: masking_ops_def lit_1e_6_def)
  then have masked: "engineer_features masking_ops no_oil_value_reading ''temp_pressure_ratio''
       = Some (Number NaN)"
    using feature_vector_contract
            [where data = no_oil_value_reading and ops = masking_ops
               and t = "Number (Fin 90)" and p = NonNumeric and d = "Number NaN"
               and q = "Number NaN", THEN conjunct1]
          temp' oil'
    by simp
  from rear vector raised masked show ?thesis
    by (intro conjI)
qed

section \<open>The balancing step\<close>

lemma index_of_Some: "index_of xs y = Some i \<Longrightarrow> i < length xs \<and> xs ! i = y"
  by (induction xs arbitrary: i) (auto split: if_splits)

lemma index_of_mem: "y \<in> set xs \<Longrightarrow> \<exists>i. index_of xs y = Some i"
  by (induction xs) auto

lemma le_transform_seen:
  "set ys \<subseteq> set cs \<Longrightarrow>
     \<exists>codes. le_transform cs ys = Inr codes
            \<and> list_all2 (\<lambda>y i. index_of cs y = Some i) ys codes"
proof (induction ys)
  case Nil
  then show ?case by simp
next
  case (Cons y ys)
  then obtain codes where c: "le_transform cs ys = Inr codes"
      "list_all2 (\<lambda>y i. index_of cs y = Some i) ys codes" by auto
  from Cons.prems obtain i where "index_of cs y = Some i"
    using index_of_mem by fastforce
  with c show ?case by (simp add: bind_err_def)
qed

lemma set_le_fit: "set (le_fit ys) = set ys"
  by (simp add: le_fit_def)

lemma list_all2_filter:
  "list_all2 R xs ys \<Longrightarrow> (\<And>x y. R x y \<Longrightarrow> P x = Q y) \<Longrightarrow>
     list_all2 R (filter P xs) (filter Q ys)"
  by (induction rule: list_all2_induct) auto

lemma list_all2_map_eq:
  "list_all2 R xs ys \<Longrightarrow> (\<And>x y. R x y \<Longrightarrow> f y = x) \<Longrightarrow> map f ys = xs"
  by (induction rule: list_all2_induct) auto

lemma list_all2_zip_rows:
  "list_all2 (\<lambda>y i. index_of cs y = Some i) (map snd rows) codes \<Longrightarrow>
   list_all2 (\<lambda>r e. fst e = fst r \<and> index_of cs (snd r) = Some (snd e)) rows
     (zip (map fst rows) codes)"
proof (induction rows arbitrary: codes)
  case Nil
  then show ?case by simp
next
  case (Cons r rows)
  then show ?case by (cases codes) auto
qed

lemma resample_rows:
  "rows \<noteq> [] \<Longrightarrow> 1 \<le> k \<Longrightarrow>
     \<exists>up. resample rng rows k = Inr up \<and> length up = k \<and> set up \<subseteq> set rows"
  by (auto simp: resample_def)

lemma resample_none: "resample rng rows 0 = Inl ValueError"
  by (simp add: resample_def)

text \<open>With a normal row among them, the rows are encoded and split; what is left of the
  step is the resampling of the normal rows.\<close>

lemma balance_split:
  assumes "''None'' \<in> snd ` set rows"
  shows "\<exists>nid fail norm.
        index_of (le_fit (map snd rows)) ''None'' = Some nid
      \<and> map (decode_row (le_fit (map snd rows))) fail = filter (\<lambda>r. snd r \<noteq> ''None'') rows
      \<and> map (decode_row (le_fit (map snd rows))) norm = filter (\<lambda>r. snd r = ''None'') rows
      \<and> (\<forall>r\<in>set fail. snd r \<noteq> nid)
      \<and> (\<forall>r\<in>set norm. snd r = nid)
      \<and> norm \<noteq> []
      \<and> balance rng rows =
          bind_err (resample rng norm (length fail div 2)) (\<lambda>upsampled.
            Inr \<lparr> classes = le_fit (map snd rows), df_failures = fail, df_normal = norm,
                  df_normal_upsampled = upsampled, df_balanced = fail @ upsampled \<rparr>)"
proof -
  let ?cs = "le_fit (map snd rows)"
  let ?R = "\<lambda>r e. fst e = fst r \<and> index_of ?cs (snd r) = Some (snd e)"
  obtain codes where codes: "le_transform ?cs (map snd rows) = Inr codes"
      "list_all2 (\<lambda>y i. index_of ?cs y = Some i) (map snd rows) codes"
    using le_transform_seen[of "map snd rows" ?cs] by (auto simp: set_le_fit)
  from assms have "''None'' \<in> set ?cs" by (simp add: set_le_fit)
  then obtain nid where nid: "index_of ?cs ''None'' = Some nid"
    using index_of_mem by fastforce
  then have ids: "le_transform ?cs [''None''] = Inr [nid]" by (simp add: bind_err_def)
  let ?df = "zip (map fst rows) codes"
  have all2: "list_all2 ?R rows ?df"
    using codes(2) by (rule list_all2_zip_rows)
  have same: "\<And>r e. ?R r e \<Longrightarrow> (snd r = ''None'') = (snd e = nid)"
    using nid index_of_Some by (metis option.inject)
  have dec: "\<And>r e. ?R r e \<Longrightarrow> decode_row ?cs e = r"
    by (auto simp: decode_row_def prod_eq_iff dest: index_of_Some)
  let ?fail = "filter (\<lambda>r. snd r \<noteq> nid) ?df"
  let ?norm = "filter (\<lambda>r. snd r = nid) ?df"
  have f2: "list_all2 ?R (filter (\<lambda>r. snd r \<noteq> ''None'') rows) ?fail"
    using all2 by (rule list_all2_filter) (simp add: same)
  have n2: "list_all2 ?R (filter (\<lambda>r. snd r = ''None'') rows) ?norm"
    using all2 by (rule list_all2_filter) (simp add: same)
  have fdec: "map (decode_row ?cs) ?fail = filter (\<lambda>r. snd r \<noteq> ''None'') rows"
    using f2 by (rule list_all2_map_eq) (simp add: dec)
  have ndec: "map (decode_row ?cs) ?norm = filter (\<lambda>r. snd r = ''None'') rows"
    using n2 by (rule list_all2_map_eq) (simp add: dec)
  from assms have "filter (\<lambda>r. snd r = ''None'') rows \<noteq> []"
    by (force simp: filter_empty_conv)
  with ndec have nonempty: "?norm \<noteq> []" by (metis map_is_Nil_conv)
  have run: "balance rng rows =
          bind_err (resample rng ?norm (length ?fail div 2)) (\<lambda>upsampled.
            Inr \<lparr> classes = ?cs, df_failures = ?fail, df_normal = ?norm,
                  df_normal_upsampled = upsampled, df_balanced = ?fail @ upsampled \<rparr>)"
    using codes(1) ids by (simp add: balance_def bind_err_def first_item_def Let_def)
  have fcode: "\<forall>r\<in>set ?fail. snd r \<noteq> nid" and ncode: "\<forall>r\<in>set ?norm. snd r = nid"
    by simp_all
  show ?thesis
    using nid fdec ndec fcode ncode nonempty run
    by (intro exI[of _ nid] exI[of _ ?fail] exI[of _ ?norm] conjI)
qed

lemma balance_partition:
  assumes "''None'' \<in> snd ` set rows"
      and "2 \<le> length (filter (\<lambda>r. snd r \<noteq> ''None'') rows)"
  shows "\<exists>b nid. balance rng rows = Inr b
      \<and> classes b = le_fit (map snd rows)
      \<and> index_of (classes b) ''None'' = Some nid
      \<and> map (decode_row (classes b)) (df_failures b) = filter (\<lambda>r. snd r \<noteq> ''None'') rows
      \<and> map (decode_row (classes b)) (df_normal b) = filter (\<lambda>r. snd r = ''None'') rows
      \<and> (\<forall>r\<in>set (df_failures b). snd r \<noteq> nid)
      \<and> (\<forall>r\<in>set (df_normal b). snd r = nid)
      \<and> length (df_normal_upsampled b) = length (df_failures b) div 2
      \<and> set (df_normal_upsampled b) \<subseteq> set (df_normal b)
      \<and> df_balanced b = df_failures b @ df_normal_upsampled b"
proof -
  let ?cs = "le_fit (map snd rows)"
  from balance_split [OF assms(1), of rng]
  obtain nid fail norm where nid: "index_of ?cs ''None'' = Some nid"
      and fdec: "map (decode_row ?cs) fail = filter (\<lambda>r. snd r \<noteq> ''None'') rows"
      and ndec: "map (decode_row ?cs) norm = filter (\<lambda>r. snd r = ''None'') rows"
      and fcode: "\<forall>r\<in>set fail. snd r \<noteq> nid"
      and ncode: "\<forall>r\<in>set norm. snd r = nid"
      and nonempty: "norm \<noteq> []"
      and run: "balance rng rows =
          bind_err (resample rng norm (length fail div 2)) (\<lambda>upsampled.
            Inr \<lparr> classes = ?cs, df_failures = fail, df_normal = norm,
                  df_normal_upsampled = upsampled, df_balanced = fail @ upsampled \<rparr>)"
    by blast
  have "length fail = length (filter (\<lambda>r. snd r \<noteq> ''None'') rows)"
    using fdec by (metis length_map)
  with assms(2) have "1 \<le> length fail div 2" by simp
  with nonempty obtain up where up: "resample rng norm (length fail div 2) = Inr up"
      "length up = length fail div 2" "set up \<subseteq> set norm"
    using resample_rows by blast
  let ?b = "\<lparr> classes = ?cs, df_failures = fail, df_normal = norm,
              df_normal_upsampled = up, df_balanced = fail @ up \<rparr>"
  have "balance rng rows = Inr ?b"
    using run up(1) by (simp add: bind_err_def)
  moreover have "index_of (classes ?b) ''None'' = Some nid" using nid by simp
  moreover have "map (decode_row (classes ?b)) (df_failures ?b)
                   = filter (\<lambda>r. snd r \<noteq> ''None'') rows"
    using fdec by simp
  moreover have "map (decode_row (classes ?b)) (df_normal ?b)
                   = filter (\<lambda>r. snd r = ''None'') rows"
    using ndec by simp
  moreover have "\<forall>r\<in>set (df_failures ?b). snd r \<noteq> nid" using fcode by simp
  moreover have "\<forall>r\<in>set (df_normal ?b). snd r = nid" using ncode by simp
  moreover have "length (df_normal_upsampled ?b) = length (df_failures ?b) div 2"
    using up(2) by simp
  moreover have "set (df_normal_upsampled ?b) \<subseteq> set (df_normal ?b)" using up(3) by simp
  ultimately show ?thesis by (intro exI[of _ ?b] exI[of _ nid]) simp
qed

text \<open>With fewer than two failure rows the script asks for no rows at all, and
  \<open>resample\<close> rejects that.\<close>

lemma balance_too_few_failures:
  assumes "''None'' \<in> snd ` set rows"
      and "length (filter (\<lambda>r. snd r \<noteq> ''None'') rows) < 2"
  shows "balance rng rows = Inl ValueError"
proof -
  let ?cs = "le_fit (map snd rows)"
  from balance_split [OF assms(1), of rng]
  obtain fail norm where
        fdec: "map (decode_row ?cs) fail = filter (\<lambda>r. snd r \<noteq> ''None'') rows"
      and run: "balance rng rows =
          bind_err (resample rng norm (length fail div 2)) (\<lambda>upsampled.
            Inr \<lparr> classes = ?cs, df_failures = fail, df_normal = norm,
                  df_normal_upsampled = upsampled, df_balanced = fail @ upsampled \<rparr>)"
    by blast
  have "length fail = length (filter (\<lambda>r. snd r \<noteq> ''None'') rows)"
    using fdec by (metis length_map)
  with assms(2) have "length fail div 2 = 0" by simp
  with run show ?thesis by (simp add: resample_none bind_err_def)
qed

text \<open>
  Claim C7, as stated: on every cleaned dataset with at least one row of each partition
  the normal rows are upsampled to half the number of failure rows, rounded down, and the
  balanced dataset has that many rows more than the failure rows. It fails on the dataset
  of one failure row and one normal row: half of one is zero rows, \<open>resample\<close> rejects
  the request, and the script ends with the exception instead of a balanced dataset of one
  row.
\<close>

theorem balance_single_failure_raises:
  "(1, ''Brake Failure'') \<in> set one_failure_rows
   \<and> (2, ''None'') \<in> set one_failure_rows
   \<and> length (filter (\<lambda>r. snd r \<noteq> ''None'') one_failure_rows) div 2 = 0
   \<and> balance counting_draws one_failure_rows = Inl ValueError"
proof -
  have "''None'' \<in> snd ` set one_failure_rows"
    by (simp add: one_failure_rows_def)
  moreover have "length (filter (\<lambda>r. snd r \<noteq> ''None'') one_failure_rows) < 2"
    by (simp add: one_failure_rows_def)
  ultimately have "balance counting_draws one_failure_rows = Inl ValueError"
    by (rule balance_too_few_failures)
  then show ?thesis by (simp add: one_failure_rows_def)
qed

text \<open>
  Claim C7, amended. On cleaned rows with at least one normal row (label \<open>''None''\<close>)
  and at least two failure rows, the balancing step succeeds. The failure rows are the
  rows whose label is not \<open>''None''\<close>, the normal rows are the others, both in their
  order and told apart by the code of \<open>''None''\<close>; the normal rows are resampled, from the
  normal rows only, to half the number of failure rows, rounded down; the balanced rows
  are the failure rows followed by the resampled ones. So there are \<open>f + f div 2\<close>
  balanced rows for \<open>f\<close> failure rows, and the normal rows among them are at most half
  as many as the failure rows.
\<close>

theorem balance_upsamples_normal_to_half:
  assumes "''None'' \<in> snd ` set rows"
      and "2 \<le> length (filter (\<lambda>r. snd r \<noteq> ''None'') rows)"
  shows "\<exists>b nid. balance rng rows = Inr b
      \<and> index_of (classes b) ''None'' = Some nid
      \<and> map (decode_row (classes b)) (df_failures b) = filter (\<lambda>r. snd r \<noteq> ''None'') rows
      \<and> map (decode_row (classes b)) (df_normal b) = filter (\<lambda>r. snd r = ''None'') rows
      \<and> df_failures b = filter (\<lambda>r. snd r \<noteq> nid) (df_failures b @ df_normal b)
      \<and> df_normal b = filter (\<lambda>r. snd r = nid) (df_failures b @ df_normal b)
      \<and> set (df_normal_upsampled b) \<subseteq> set (df_normal b)
      \<and> length (df_normal_upsampled b) = length (df_failures b) div 2
      \<and> df_balanced b = df_failures b @ df_normal_upsampled b
      \<and> length (df_balanced b)
          = length (filter (\<lambda>r. snd r \<noteq> ''None'') rows)
            + length (filter (\<lambda>r. snd r \<noteq> ''None'') rows) div 2
      \<and> filter (\<lambda>r. snd r = nid) (df_balanced b) = df_normal_upsampled b
      \<and> 2 * length (filter (\<lambda>r. snd r = nid) (df_balanced b))
          \<le> length (filter (\<lambda>r. snd r \<noteq> nid) (df_balanced b))"
proof -
  from balance_partition [OF assms, of rng]
  obtain b nid where b: "balance rng rows = Inr b"
      and nid: "index_of (classes b) ''None'' = Some nid"
      and fdec: "map (decode_row (classes b)) (df_failures b)
                   = filter (\<lambda>r. snd r \<noteq> ''None'') rows"
      and ndec: "map (decode_row (classes b)) (df_normal b)
                   = filter (\<lambda>r. snd r = ''None'') rows"
      and fcode: "\<forall>r\<in>set (df_failures b). snd r \<noteq> nid"
      and ncode: "\<forall>r\<in>set (df_normal b). snd r = nid"
      and len: "length (df_normal_upsampled b) = length (df_failures b) div 2"
      and sub: "set (df_normal_upsampled b) \<subseteq> set (df_normal b)"
      and bal: "df_balanced b = df_failures b @ df_normal_upsampled b"
    by blast
  from sub ncode have ucode: "\<forall>r\<in>set (df_normal_upsampled b). snd r = nid" by blast
  have f_all: "filter (\<lambda>r. snd r \<noteq> nid) (df_failures b) = df_failures b"
    using fcode by (simp add: filter_id_conv)
  have f_none: "filter (\<lambda>r. snd r = nid) (df_failures b) = []"
    using fcode by (simp add: filter_empty_conv)
  have n_all: "filter (\<lambda>r. snd r = nid) (df_normal b) = df_normal b"
    using ncode by (simp add: filter_id_conv)
  have n_none: "filter (\<lambda>r. snd r \<noteq> nid) (df_normal b) = []"
    using ncode by (simp add: filter_empty_conv)
  have u_all: "filter (\<lambda>r. snd r = nid) (df_normal_upsampled b) = df_normal_upsampled b"
    using ucode by (simp add: filter_id_conv)
  have u_none: "filter (\<lambda>r. snd r \<noteq> nid) (df_normal_upsampled b) = []"
    using ucode by (simp add: filter_empty_conv)
  have flen: "length (df_failures b) = length (filter (\<lambda>r. snd r \<noteq> ''None'') rows)"
    using fdec by (metis length_map)
  have p1: "df_failures b = filter (\<lambda>r. snd r \<noteq> nid) (df_failures b @ df_normal b)"
    by (simp add: f_all n_none)
  have p2: "df_normal b = filter (\<lambda>r. snd r = nid) (df_failures b @ df_normal b)"
    by (simp add: f_none n_all)
  have total: "length (df_balanced b)
          = length (filter (\<lambda>r. snd r \<noteq> ''None'') rows)
            + length (filter (\<lambda>r. snd r \<noteq> ''None'') rows) div 2"
    using bal len flen by simp
  have normals: "filter (\<lambda>r. snd r = nid) (df_balanced b) = df_normal_upsampled b"
    by (simp add: bal f_none u_all)
  have failures: "filter (\<lambda>r. snd r \<noteq> nid) (df_balanced b) = df_failures b"
    by (simp add: bal f_all u_none)
  have half: "2 * length (filter (\<lambda>r. snd r = nid) (df_balanced b))
          \<le> length (filter (\<lambda>r. snd r \<noteq> nid) (df_balanced b))"
    unfolding normals failures len by simp
  show ?thesis
    using b nid fdec ndec p1 p2 sub len bal total normals half
    by (intro exI[of _ b] exI[of _ nid] conjI)
qed

theorem balance_upsamples_normal_to_half_witness:
  "''None'' \<in> snd ` set example_rows
   \<and> 2 \<le> length (filter (\<lambda>r. snd r \<noteq> ''None'') example_rows)
   \<and> (\<exists>b. balance counting_draws example_rows = Inr b
          \<and> length (df_failures b) = 4
          \<and> length (df_normal_upsampled b) = 2
          \<and> length (df_balanced b) = 6)"
proof -
  have normal: "''None'' \<in> snd ` set example_rows"
    by (simp add: example_rows_def)
  have four: "length (filter (\<lambda>r. snd r \<noteq> ''None'') example_rows) = 4"
    by (simp add: example_rows_def)
  then have two: "2 \<le> length (filter (\<lambda>r. snd r \<noteq> ''None'') example_rows)"
    by simp
  from balance_upsamples_normal_to_half [OF normal two, of counting_draws]
  obtain b where b: "balance counting_draws example_rows = Inr b"
      and fdec: "map (decode_row (classes b)) (df_failures b)
                   = filter (\<lambda>r. snd r \<noteq> ''None'') example_rows"
      and len: "length (df_normal_upsampled b) = length (df_failures b) div 2"
      and total: "length (df_balanced b)
          = length (filter (\<lambda>r. snd r \<noteq> ''None'') example_rows)
            + length (filter (\<lambda>r. snd r \<noteq> ''None'') example_rows) div 2"
    by blast
  have "length (df_failures b) = 4"
    using fdec four by (metis length_map)
  with b len total four normal two show ?thesis by auto
qed

section \<open>Reproducibility of the training script\<close>

lemma prepare_same:
  assumes "seeded_generator run = seeded_generator run'" and "engineer run = engineer run'"
      and "fit_transform run = fit_transform run'"
      and "train_test_split run = train_test_split run'"
  shows "prepare run df = prepare run' df"
  using assms by (simp add: prepare_def prepare_with_def check_random_state_def)

lemma train_same:
  assumes "prepare run df = prepare run' df"
      and "seeded_generator run = seeded_generator run'" and "xgb_fit run = xgb_fit run'"
  shows "train run df = train run' df"
  using assms by (simp add: train_def train_with_def prepare_def check_random_state_def)

text \<open>A run that ends well has drawn, in each of its three randomized steps, from the
  generator seeded with 42.\<close>

lemma train_steps:
  assumes "train run df = Inr (p, final_model)"
  shows "\<exists>b. balance (seeded_generator run 42)
                (map (\<lambda>(x, l). (engineer run x, l)) (clean df)) = Inr b
           \<and> label_classes p = classes b
           \<and> balanced_rows p = df_balanced b
           \<and> upsampled_rows p = df_normal_upsampled b
           \<and> train_test_split run (seeded_generator run 42)
                (zip (fit_transform run (map fst (df_balanced b))) (map snd (df_balanced b)))
               = Inr (train_rows p, test_rows p)
           \<and> xgb_fit run (seeded_generator run 42) (length (classes b)) (train_rows p)
               = Inr final_model"
proof -
  let ?rows = "map (\<lambda>(x, l). (engineer run x, l)) (clean df)"
  from assms obtain b where b: "balance (seeded_generator run 42) ?rows = Inr b"
    by (cases "balance (seeded_generator run 42) ?rows")
       (simp_all add: train_def train_with_def prepare_with_def check_random_state_def
          bind_err_def Let_def)
  let ?split = "train_test_split run (seeded_generator run 42)
                  (zip (fit_transform run (map fst (df_balanced b))) (map snd (df_balanced b)))"
  from assms b obtain tr te where s: "?split = Inr (tr, te)"
    by (cases ?split)
       (auto simp: train_def train_with_def prepare_with_def check_random_state_def
          bind_err_def Let_def)
  let ?p = "\<lparr> label_classes = classes b, balanced_rows = df_balanced b,
              upsampled_rows = df_normal_upsampled b, train_rows = tr, test_rows = te \<rparr>"
  have prep: "prepare_with (Some 42) (Some 42) run df = Inr ?p"
    using b s by (simp add: prepare_with_def check_random_state_def bind_err_def Let_def)
  let ?fit = "xgb_fit run (seeded_generator run 42) (length (classes b)) tr"
  from assms prep have "?fit = Inr final_model \<and> p = ?p"
    by (cases ?fit)
       (auto simp: train_def train_with_def check_random_state_def bind_err_def)
  with b s show ?thesis by auto
qed

lemma train_example:
  "train example_run example_csv =
     Inr (\<lparr> label_classes =
              [''Battery Failure'', ''Brake Failure'', ''Engine Overheating'', ''None''],
            balanced_rows = [(1, 1), (3, 2), (5, 1), (6, 0), (4, 3), (4, 3)],
            upsampled_rows = [(4, 3), (4, 3)],
            train_rows = [(6, 0), (4, 3), (4, 3)],
            test_rows = [(1, 1), (3, 2), (5, 1)] \<rparr>, 43)"
  by code_simp

lemma unseeded_example:
  "prepare_with None (Some 42) example_run example_csv =
     Inr \<lparr> label_classes =
             [''Battery Failure'', ''Brake Failure'', ''Engine Overheating'', ''None''],
           balanced_rows = [(1, 1), (3, 2), (5, 1), (6, 0), (2, 3), (2, 3)],
           upsampled_rows = [(2, 3), (2, 3)],
           train_rows = [(6, 0), (2, 3), (2, 3)],
           test_rows = [(1, 1), (3, 2), (5, 1)] \<rparr>"
  by code_simp

lemma unseeded_other_example:
  "prepare_with None (Some 42) other_run example_csv =
     Inr \<lparr> label_classes =
             [''Battery Failure'', ''Brake Failure'', ''Engine Overheating'', ''None''],
           balanced_rows = [(1, 1), (3, 2), (5, 1), (6, 0), (4, 3), (4, 3)],
           upsampled_rows = [(4, 3), (4, 3)],
           train_rows = [(6, 0), (4, 3), (4, 3)],
           test_rows = [(1, 1), (3, 2), (5, 1)] \<rparr>"
  by code_simp

text \<open>
  Claim C8. Every randomized step of the training script (the upsampling, the train/test
  split, the tree training) draws from the generator seeded with 42 and none from the
  global generator of the run. So two runs on the same csv rows, in which the seeded
  generator and the library steps behave alike, end alike whatever their global
  generators: with the same label vocabulary, the same balanced and upsampled rows and
  the same train and test partitions, and, when the tree training behaves alike too, with
  the same model, or with the same exception. On the example file the three seeded draws
  show in the result; and the seed is what it rests on, for with the upsampling left
  unseeded the two example runs upsample different rows.
\<close>

theorem train_reproducible:
  "(seeded_generator run = seeded_generator run' \<and> engineer run = engineer run'
      \<and> fit_transform run = fit_transform run'
      \<and> train_test_split run = train_test_split run' \<longrightarrow>
      prepare run df = prepare run' df
      \<and> (xgb_fit run = xgb_fit run' \<longrightarrow> train run df = train run' df))
   \<and> (train run df = Inr (p, final_model) \<longrightarrow>
      (\<exists>b. balance (seeded_generator run 42)
                (map (\<lambda>(x, l). (engineer run x, l)) (clean df)) = Inr b
           \<and> label_classes p = classes b
           \<and> balanced_rows p = df_balanced b
           \<and> upsampled_rows p = df_normal_upsampled b
           \<and> train_test_split run (seeded_generator run 42)
                (zip (fit_transform run (map fst (df_balanced b))) (map snd (df_balanced b)))
               = Inr (train_rows p, test_rows p)
           \<and> xgb_fit run (seeded_generator run 42) (length (classes b)) (train_rows p)
               = Inr final_model))
   \<and> train example_run example_csv =
       Inr (\<lparr> label_classes =
                [''Battery Failure'', ''Brake Failure'', ''Engine Overheating'', ''None''],
              balanced_rows = [(1, 1), (3, 2), (5, 1), (6, 0), (4, 3), (4, 3)],
              upsampled_rows = [(4, 3), (4, 3)],
              train_rows = [(6, 0), (4, 3), (4, 3)],
              test_rows = [(1, 1), (3, 2), (5, 1)] \<rparr>, 43)
   \<and> prepare_with None (Some 42) example_run example_csv
       \<noteq> prepare_with None (Some 42) other_run example_csv"
proof (intro conjI impI)
  assume c: "seeded_generator run = seeded_generator run' \<and> engineer run = engineer run'
      \<and> fit_transform run = fit_transform run'
      \<and> train_test_split run = train_test_split run'"
  then show same: "prepare run df = prepare run' df"
    by (intro prepare_same) simp_all
  assume fit: "xgb_fit run = xgb_fit run'"
  from c have "seeded_generator run = seeded_generator run'" by simp
  with same show "train run df = train run' df"
    using fit by (rule train_same)
next
  assume "train run df = Inr (p, final_model)"
  then show "\<exists>b. balance (seeded_generator run 42)
                (map (\<lambda>(x, l). (engineer run x, l)) (clean df)) = Inr b
           \<and> label_classes p = classes b
           \<and> balanced_rows p = df_balanced b
           \<and> upsampled_rows p = df_normal_upsampled b
           \<and> train_test_split run (seeded_generator run 42)
                (zip (fit_transform run (map fst (df_balanced b))) (map snd (df_balanced b)))
               = Inr (train_rows p, test_rows p)
           \<and> xgb_fit run (seeded_generator run 42) (length (classes b)) (train_rows p)
               = Inr final_model"
    by (rule train_steps)
next
  show "train example_run example_csv =
       Inr (\<lparr> label_classes =
                [''Battery Failure'', ''Brake Failure'', ''Engine Overheating'', ''None''],
              balanced_rows = [(1, 1), (3, 2), (5, 1), (6, 0), (4, 3), (4, 3)],
              upsampled_rows = [(4, 3), (4, 3)],
              train_rows = [(6, 0), (4, 3), (4, 3)],
              test_rows = [(1, 1), (3, 2), (5, 1)] \<rparr>, 43)"
    by (rule train_example)
next
  show "prepare_with None (Some 42) example_run example_csv
       \<noteq> prepare_with None (Some 42) other_run example_csv"
    unfolding unseeded_example unseeded_other_example by simp
qed

theorem train_reproducible_witness:
  "seeded_generator example_run = seeded_generator other_run
   \<and> engineer example_run = engineer other_run
   \<and> fit_transform example_run = fit_transform other_run
   \<and> train_test_split example_run = train_test_split other_run
   \<and> xgb_fit example_run = xgb_fit other_run
   \<and> global_generator example_run 0 \<noteq> global_generator other_run 0
   \<and> prepare example_run example_csv = prepare other_run example_csv
   \<and> train example_run example_csv = train other_run example_csv"
proof -
  have same: "seeded_generator example_run = seeded_generator other_run"
      "engineer example_run = engineer other_run"
      "fit_transform example_run = fit_transform other_run"
      "train_test_split example_run = train_test_split other_run"
      "xgb_fit example_run = xgb_fit other_run"
    by (simp_all add: other_run_def)
  have differ: "global_generator example_run 0 \<noteq> global_generator other_run 0"
    by (simp add: other_run_def example_run_def)
  from same
    train_reproducible [where run = example_run and run' = other_run and df = example_csv,
      THEN conjunct1]
  have "prepare example_run example_csv = prepare other_run example_csv"
    and "train example_run example_csv = train other_run example_csv"
    by simp_all
  with same differ show ?thesis by (intro conjI)
qed

end
